theory Spec2Isabelle
  imports Complex_Main
begin

unbundle bit_operations_syntax

section \<open>Python strings\<close>

text \<open>
  A Python \<open>str\<close> is a sequence of Unicode code points and \<open>len\<close> counts code points,
  so a string is a list of code points (natural numbers). String literals of the source are
  written \<open>ascii ''...''\<close>.
\<close>

type_synonym ustr = "nat list"

definition ascii :: "string \<Rightarrow> ustr" where
  "ascii s = map of_char s"

text \<open>A multi-line literal: the lines joined by the newline character (code point 10).\<close>

fun text_of_lines :: "string list \<Rightarrow> ustr" where
  "text_of_lines [] = []"
| "text_of_lines [l] = ascii l"
| "text_of_lines (l # ls) = ascii l @ 10 # text_of_lines ls"

text \<open>
  \<open>str.isspace\<close>, which is also what \<open>str.strip()\<close> removes and what the regular
  expression class \<open>\s\<close> matches on \<open>str\<close> patterns.
\<close>

definition is_space :: "nat \<Rightarrow> bool" where
  "is_space c = (c \<in> set [9, 10, 11, 12, 13, 28, 29, 30, 31, 32, 133, 160, 5760,
      8192, 8193, 8194, 8195, 8196, 8197, 8198, 8199, 8200, 8201, 8202,
      8232, 8233, 8239, 8287, 12288])"

definition strip :: "ustr \<Rightarrow> ustr" where
  "strip s = rev (dropWhile is_space (rev (dropWhile is_space s)))"

text \<open>The slice \<open>s[:n]\<close>; a negative \<open>n\<close> counts from the end.\<close>

definition slice_to :: "'a list \<Rightarrow> int \<Rightarrow> 'a list" where
  "slice_to s n = (if 0 \<le> n then take (nat n) s else take (length s - nat (- n)) s)"

text \<open>\<open>s.split(sep)\<close> for a one-character separator.\<close>

fun split_on :: "nat \<Rightarrow> ustr \<Rightarrow> ustr list" where
  "split_on sep [] = [[]]"
| "split_on sep (c # cs) =
     (if c = sep then [] # split_on sep cs
      else (case split_on sep cs of
              [] \<Rightarrow> [[c]]
            | l # ls \<Rightarrow> (c # l) # ls))"

text \<open>\<open>sep.join(parts)\<close>.\<close>

fun join :: "ustr \<Rightarrow> ustr list \<Rightarrow> ustr" where
  "join sep [] = []"
| "join sep [p] = p"
| "join sep (p # ps) = p @ sep @ join sep ps"

text \<open>\<open>sub in s\<close> on strings.\<close>

fun starts_with :: "ustr \<Rightarrow> ustr \<Rightarrow> bool" where
  "starts_with s [] = True"
| "starts_with [] (p # ps) = False"
| "starts_with (c # cs) (p # ps) = (c = p \<and> starts_with cs ps)"

fun contains :: "ustr \<Rightarrow> ustr \<Rightarrow> bool" where
  "contains [] sub = (sub = [])"
| "contains (c # cs) sub = (starts_with (c # cs) sub \<or> contains cs sub)"

text \<open>\<open>str(n)\<close> for a natural number and for an integer.\<close>

fun str_of_nat :: "nat \<Rightarrow> ustr" where
  "str_of_nat n = (if n < 10 then [48 + n] else str_of_nat (n div 10) @ [48 + n mod 10])"

declare str_of_nat.simps [simp del]

definition str_of_int :: "int \<Rightarrow> ustr" where
  "str_of_int i = (if i < 0 then 45 # str_of_nat (nat (- i)) else str_of_nat (nat i))"

text \<open>The order \<open>s <= t\<close> of Python on strings: lexicographic on the code points.\<close>

fun str_le :: "ustr \<Rightarrow> ustr \<Rightarrow> bool" where
  "str_le [] t = True"
| "str_le (a # s) [] = False"
| "str_le (a # s) (b # t) = (a < b \<or> (a = b \<and> str_le s t))"

section \<open>The remote completion service and the Python runtime\<close>

text \<open>
  The parameter \<open>messages\<close> of the executor is a \<open>List[Dict]\<close>. A dictionary is the list
  of its items in insertion order, with strings as keys (and no key twice). The values that
  are told apart are a string, \<open>None\<close>, an integer, and an object that \<open>json\<close> cannot
  serialise and that has no \<open>+=\<close> with a string (a \<open>bytes\<close> or a \<open>set\<close>, say).
\<close>

datatype py_value = VStr ustr | VNone | VInt int | VObject

type_synonym py_dict = "(ustr \<times> py_value) list"

text \<open>
  The dictionary \<open>{"role": r, "content": c}\<close>: every message the program itself builds
  has exactly these two string entries.
\<close>

definition message :: "ustr \<Rightarrow> ustr \<Rightarrow> py_dict" where
  "message r c = [(ascii ''role'', VStr r), (ascii ''content'', VStr c)]"

text \<open>
  What the executor needs of its argument: every dictionary can be serialised (no value is
  an unserialisable object), and the first message has a string under \<open>content\<close>. Every
  list of messages that the program builds is of this kind.
\<close>

definition serialisable :: "py_dict \<Rightarrow> bool" where
  "serialisable d =
     list_all (\<lambda>kv. case snd kv of VStr s \<Rightarrow> True | VNone \<Rightarrow> True
                                   | VInt i \<Rightarrow> True | VObject \<Rightarrow> False) d"

definition has_text_content :: "py_dict \<Rightarrow> bool" where
  "has_text_content d =
     (case map_of d (ascii ''content'') of
        None \<Rightarrow> False
      | Some v \<Rightarrow> (case v of VStr c \<Rightarrow> True | VNone \<Rightarrow> False
                                | VInt i \<Rightarrow> False | VObject \<Rightarrow> False))"

definition well_formed_messages :: "py_dict list \<Rightarrow> bool" where
  "well_formed_messages ms =
     (list_all serialisable ms \<and> (case ms of [] \<Rightarrow> True | m # r \<Rightarrow> has_text_content m))"

text \<open>The keyword arguments of \<open>client.chat.completions.create\<close>.\<close>

record request =
  req_model :: ustr
  req_messages :: "py_dict list"
  req_max_tokens :: int
  req_temperature :: real
  req_top_p :: real
  req_frequency_penalty :: real
  req_timeout :: int

text \<open>
  What one call of the remote service does: it returns a response, whose choices each carry
  a message content that is a string or \<open>None\<close>, or it raises. \<open>groq.RateLimitError\<close> is
  a subclass of \<open>groq.APIError\<close>; \<open>APIError m\<close> stands for every other \<open>groq.APIError\<close>,
  with \<open>m = str(e)\<close>, and \<open>OtherException\<close> for every other \<open>Exception\<close> raised in the
  \<open>try\<close> block.
\<close>

datatype outcome =
    Response "ustr option list"
  | RateLimitError
  | APIError ustr
  | OtherException

text \<open>What the program does to the outside world, in order.\<close>

datatype event = Dispatch request | Sleep nat | ReadClock

text \<open>The exceptions that the modelled code can raise outside a remote call.\<close>

datatype py_error = ZeroDivisionError | UnicodeEncodeError | KeyError | TypeError

text \<open>The subscription \<open>d[k]\<close> and the assignment \<open>d[k] = v\<close> on a dictionary.\<close>

definition dict_get :: "('k \<times> 'v) list \<Rightarrow> 'k \<Rightarrow> py_error + 'v" where
  "dict_get d k = (case map_of d k of None \<Rightarrow> Inl KeyError | Some v \<Rightarrow> Inr v)"

fun dict_set :: "'k \<Rightarrow> 'v \<Rightarrow> ('k \<times> 'v) list \<Rightarrow> ('k \<times> 'v) list" where
  "dict_set k v [] = [(k, v)]"
| "dict_set k v ((k', v') # d) = (if k' = k then (k, v) # d else (k', v') # dict_set k v d)"

text \<open>
  The parts of the run-time environment that are not code of the repository: the Unicode
  tables behind \<open>\w\<close>, \<open>\d\<close>, \<open>str.lower\<close> and \<open>str.upper\<close> beyond ASCII; the
  remote service, whose answer may depend on everything that happened before; the clock,
  likewise; the formatting of a float by a format specification such as \<open>.1f\<close>, of a
  time by \<open>strftime\<close>, and of an exception by \<open>str\<close>.
\<close>

record env =
  uni_alnum :: "nat \<Rightarrow> bool"
  uni_decimal :: "nat \<Rightarrow> bool"
  uni_lower :: "ustr \<Rightarrow> ustr"
  uni_upper :: "ustr \<Rightarrow> ustr"
  remote :: "event list \<Rightarrow> request \<Rightarrow> outcome"
  clock :: "event list \<Rightarrow> real"
  format_real :: "ustr \<Rightarrow> real \<Rightarrow> ustr"
  strftime :: "real \<Rightarrow> ustr \<Rightarrow> ustr"
  exception_text :: "py_error \<Rightarrow> ustr"

definition is_ascii :: "ustr \<Rightarrow> bool" where
  "is_ascii s = list_all (\<lambda>c. c < 128) s"

definition ascii_lower :: "nat \<Rightarrow> nat" where
  "ascii_lower c = (if 65 \<le> c \<and> c \<le> 90 then c + 32 else c)"

definition ascii_upper :: "nat \<Rightarrow> nat" where
  "ascii_upper c = (if 97 \<le> c \<and> c \<le> 122 then c - 32 else c)"

definition lower :: "env \<Rightarrow> ustr \<Rightarrow> ustr" where
  "lower E s = (if is_ascii s then map ascii_lower s else uni_lower E s)"

definition upper :: "env \<Rightarrow> ustr \<Rightarrow> ustr" where
  "upper E s = (if is_ascii s then map ascii_upper s else uni_upper E s)"

text \<open>The regular expression classes \<open>\w\<close> and \<open>\d\<close> on \<open>str\<close> patterns.\<close>

definition is_word :: "env \<Rightarrow> nat \<Rightarrow> bool" where
  "is_word E c =
     (if c < 128 then (48 \<le> c \<and> c \<le> 57) \<or> (65 \<le> c \<and> c \<le> 90) \<or> c = 95 \<or> (97 \<le> c \<and> c \<le> 122)
      else uni_alnum E c)"

definition is_digit :: "env \<Rightarrow> nat \<Rightarrow> bool" where
  "is_digit E c = (if c < 128 then 48 \<le> c \<and> c \<le> 57 else uni_decimal E c)"

section \<open>Text sanitizer\<close>

text \<open>
  The argument of \<open>_clean_input\<close> is any Python value: a string, or something that is not an
  instance of \<open>str\<close>.
\<close>

datatype py_arg = PyStr ustr | PyOther

text \<open>
  The characters the class
  \<^verbatim>\<open>[^\w\s\-.,!?()\'\"@#$%&*+/:;<=>[\]^`{|}~...]\<close> lists literally, the last three being
  the euro, pound and yen signs.
\<close>

definition allowed_punct :: "nat list" where
  "allowed_punct = [45, 46, 44, 33, 63, 40, 41, 39, 34, 64, 35, 36, 37, 38, 42, 43, 47, 58, 59,
     60, 61, 62, 91, 93, 94, 96, 123, 124, 125, 126, 8364, 163, 165]"

definition allowed_char :: "env \<Rightarrow> nat \<Rightarrow> bool" where
  "allowed_char E c = (is_word E c \<or> is_space c \<or> c \<in> set allowed_punct)"

definition clean_input :: "env \<Rightarrow> py_arg \<Rightarrow> int \<Rightarrow> ustr" where
  "clean_input E text_arg max_chars =
     (case text_arg of
        PyOther \<Rightarrow> []
      | PyStr s \<Rightarrow>
          if s = [] then []
          else slice_to (strip (filter (allowed_char E) s)) max_chars)"

section \<open>Recommendation parser\<close>

text \<open>
  The tail \<^verbatim>\<open>\s*(.+)\<close> of both patterns, matched at the start of a string: the result
  is group \<open>(.+)\<close>. \<open>\s*\<close> is greedy and gives characters back one at a time; \<open>.\<close> is any
  character but the newline.
\<close>

definition dot_plus :: "ustr \<Rightarrow> ustr option" where
  "dot_plus s = (let m = takeWhile (\<lambda>c. c \<noteq> 10) s in if m = [] then None else Some m)"

fun ws_dot_plus :: "ustr \<Rightarrow> ustr option" where
  "ws_dot_plus [] = None"
| "ws_dot_plus (c # cs) =
     (if is_space c then
        (case ws_dot_plus cs of
           Some m \<Rightarrow> Some m
         | None \<Rightarrow> dot_plus (c # cs))
      else dot_plus (c # cs))"

text \<open>\<^verbatim>\<open>re.match(r'^(\d+)[\.\)]\s*(.+)', line)\<close>, giving group 2.\<close>

definition numbered_match :: "env \<Rightarrow> ustr \<Rightarrow> ustr option" where
  "numbered_match E line =
     (if takeWhile (is_digit E) line = [] then None
      else (case dropWhile (is_digit E) line of
              [] \<Rightarrow> None
            | c # r \<Rightarrow> if c = 46 \<or> c = 41 then ws_dot_plus r else None))"

text \<open>
  \<^verbatim>\<open>re.match(r'^[\-\*\<bullet>]\s*(.+)', line)\<close>, giving group 1; the third marker is
  the bullet, code point 8226.
\<close>

definition bullet_match :: "ustr \<Rightarrow> ustr option" where
  "bullet_match line =
     (case line of
        [] \<Rightarrow> None
      | c # r \<Rightarrow> if c = 45 \<or> c = 42 \<or> c = 8226 then ws_dot_plus r else None)"

definition long_group :: "ustr option \<Rightarrow> bool" where
  "long_group g = (case g of None \<Rightarrow> False | Some t \<Rightarrow> 20 < length (strip t))"

text \<open>The first loop over the lines.\<close>

fun primary_extraction :: "env \<Rightarrow> ustr list \<Rightarrow> ustr list \<Rightarrow> ustr list" where
  "primary_extraction E [] recommendations = recommendations"
| "primary_extraction E (l # ls) recommendations =
     (let line = strip l in
      if line = [] then primary_extraction E ls recommendations
      else if long_group (numbered_match E line)
        then primary_extraction E ls (recommendations @ [strip (the (numbered_match E line))])
      else if long_group (bullet_match line)
        then primary_extraction E ls (recommendations @ [strip (the (bullet_match line))])
      else primary_extraction E ls recommendations)"

definition action_words :: "ustr list" where
  "action_words = map ascii [''develop'', ''implement'', ''establish'', ''create'', ''invest'',
     ''expand'', ''focus'', ''prioritize'', ''enhance'', ''strengthen'']"

text \<open>The second loop, with its \<open>break\<close>.\<close>

fun secondary_extraction :: "env \<Rightarrow> ustr list \<Rightarrow> ustr list \<Rightarrow> ustr list" where
  "secondary_extraction E [] recommendations = recommendations"
| "secondary_extraction E (l # ls) recommendations =
     (let line = strip l in
      if 25 < length line \<and> length line < 300
         \<and> list_ex (\<lambda>w. contains (lower E line) w) action_words
         \<and> line \<notin> set recommendations
      then (if 8 \<le> length (recommendations @ [line]) then recommendations @ [line]
            else secondary_extraction E ls (recommendations @ [line]))
      else secondary_extraction E ls recommendations)"

definition parse_recommendations :: "env \<Rightarrow> ustr \<Rightarrow> ustr list" where
  "parse_recommendations E txt =
     (if txt = [] then []
      else (let lines = split_on 10 txt;
                recommendations = primary_extraction E lines []
            in slice_to
                 (if length recommendations < 4
                  then secondary_extraction E lines recommendations
                  else recommendations) 8))"

section \<open>Business report and quality score\<close>

text \<open>
  Floats are modelled as real numbers. \<open>completion_status\<close> is the dictionary in insertion
  order.
\<close>

record BusinessReport =
  query :: ustr
  targets :: "ustr list"
  market_intelligence :: ustr
  competitive_landscape :: ustr
  risk_evaluation :: ustr
  strategic_actions :: "ustr list"
  executive_briefing :: ustr
  analysis_quality :: real
  processing_duration :: real
  completion_status :: "(ustr \<times> bool) list"

text \<open>\<open>sum(report.completion_status.values()) / len(report.completion_status)\<close>\<close>

definition completeness_score :: "BusinessReport \<Rightarrow> py_error + real" where
  "completeness_score report =
     (if length (completion_status report) = 0 then Inl ZeroDivisionError
      else Inr (real (length (filter snd (completion_status report)))
                / real (length (completion_status report))))"

definition content_quality :: "BusinessReport \<Rightarrow> real" where
  "content_quality report =
     (if 6 \<le> length (strategic_actions report) then 0.5 else 0)
     + (if 300 < length (strip (executive_briefing report)) then 0.5 else 0)"

definition performance_score :: "real \<Rightarrow> real" where
  "performance_score duration =
     (if 0 < duration \<and> duration \<le> 60 then 0.15
      else if duration \<le> 120 then 0.1
      else 0)"

text \<open>The body of the \<open>try\<close> block, and the function with its \<open>except Exception\<close>.\<close>

definition quality_body :: "BusinessReport \<Rightarrow> py_error + real" where
  "quality_body report =
     (case completeness_score report of
        Inl e \<Rightarrow> Inl e
      | Inr c \<Rightarrow>
          Inr (min (0 + c * 0.6 + content_quality report * 0.25
                    + performance_score (processing_duration report)) 1))"

definition calculate_quality_score :: "BusinessReport \<Rightarrow> real" where
  "calculate_quality_score report =
     (case quality_body report of Inl e \<Rightarrow> 0.75 | Inr q \<Rightarrow> q)"

section \<open>Response cache: serialisation and fingerprint\<close>

text \<open>
  \<open>json.dumps(messages, sort_keys=True)\<close> with the default \<open>ensure_ascii\<close>: within a string,
  the quote, the backslash and the control characters with a short escape are written with a
  backslash, the printable ASCII characters as they are, every other code point below
  \<open>0x10000\<close> as \<open>\uXXXX\<close> and the ones above as a surrogate pair.
\<close>

definition hex_digit :: "nat \<Rightarrow> nat" where
  "hex_digit n = (if n mod 16 < 10 then 48 + n mod 16 else 87 + n mod 16)"

definition hex4 :: "nat \<Rightarrow> ustr" where
  "hex4 n = [hex_digit (n div 4096), hex_digit (n div 256), hex_digit (n div 16), hex_digit n]"

definition json_escape_char :: "nat \<Rightarrow> ustr" where
  "json_escape_char c =
     (if c = 34 then [92, 34]
      else if c = 92 then [92, 92]
      else if c = 10 then [92, 110]
      else if c = 13 then [92, 114]
      else if c = 9 then [92, 116]
      else if c = 12 then [92, 102]
      else if c = 8 then [92, 98]
      else if 32 \<le> c \<and> c \<le> 126 then [c]
      else if c < 65536 then 92 # 117 # hex4 c
      else 92 # 117 # hex4 (55296 OR (drop_bit 10 (c - 65536) AND 1023))
           @ 92 # 117 # hex4 (56320 OR ((c - 65536) AND 1023)))"

definition json_string :: "ustr \<Rightarrow> ustr" where
  "json_string s = 34 # concat (map json_escape_char s) @ [34]"

text \<open>
  A value: a string in quotes, \<open>None\<close> as \<open>null\<close>, an integer in decimal; on any other
  object the encoder raises \<open>TypeError\<close>.
\<close>

definition json_value :: "py_value \<Rightarrow> py_error + ustr" where
  "json_value v =
     (case v of
        VStr s \<Rightarrow> Inr (json_string s)
      | VNone \<Rightarrow> Inr (ascii ''null'')
      | VInt i \<Rightarrow> Inr (str_of_int i)
      | VObject \<Rightarrow> Inl TypeError)"

text \<open>The parts of a serialisation, or the first exception raised while producing them.\<close>

fun collect :: "('e + 'a) list \<Rightarrow> 'e + 'a list" where
  "collect [] = Inr []"
| "collect (x # xs) =
     (case x of
        Inl e \<Rightarrow> Inl e
      | Inr a \<Rightarrow> (case collect xs of Inl e \<Rightarrow> Inl e | Inr r \<Rightarrow> Inr (a # r)))"

text \<open>\<open>sorted(d.items())\<close>, which \<open>sort_keys=True\<close> asks for: the items in the order of their keys.\<close>

fun insert_item :: "ustr \<times> 'v \<Rightarrow> (ustr \<times> 'v) list \<Rightarrow> (ustr \<times> 'v) list" where
  "insert_item x [] = [x]"
| "insert_item x (y # ys) =
     (if str_le (fst x) (fst y) then x # y # ys else y # insert_item x ys)"

definition sorted_items :: "(ustr \<times> 'v) list \<Rightarrow> (ustr \<times> 'v) list" where
  "sorted_items d = foldr insert_item d []"

definition json_item :: "ustr \<times> py_value \<Rightarrow> py_error + ustr" where
  "json_item kv =
     (case json_value (snd kv) of
        Inl e \<Rightarrow> Inl e
      | Inr s \<Rightarrow> Inr (json_string (fst kv) @ ascii '': '' @ s))"

definition json_message :: "py_dict \<Rightarrow> py_error + ustr" where
  "json_message d =
     (case collect (map json_item (sorted_items d)) of
        Inl e \<Rightarrow> Inl e
      | Inr parts \<Rightarrow> Inr (123 # join (ascii '', '') parts @ [125]))"

definition json_dumps :: "py_dict list \<Rightarrow> py_error + ustr" where
  "json_dumps ms =
     (case collect (map json_message ms) of
        Inl e \<Rightarrow> Inl e
      | Inr parts \<Rightarrow> Inr (91 # join (ascii '', '') parts @ [93]))"

text \<open>
  \<open>content.encode()\<close>: UTF-8, which raises \<open>UnicodeEncodeError\<close> on a surrogate code point.
\<close>

definition utf8_char :: "nat \<Rightarrow> nat list option" where
  "utf8_char c =
     (if c < 128 then Some [c]
      else if c < 2048 then Some [192 + c div 64, 128 + c mod 64]
      else if 55296 \<le> c \<and> c \<le> 57343 then None
      else if c < 65536 then Some [224 + c div 4096, 128 + c div 64 mod 64, 128 + c mod 64]
      else Some [240 + c div 262144 mod 8, 128 + c div 4096 mod 64, 128 + c div 64 mod 64,
                 128 + c mod 64])"

fun utf8_encode :: "ustr \<Rightarrow> py_error + nat list" where
  "utf8_encode [] = Inr []"
| "utf8_encode (c # cs) =
     (case utf8_char c of
        None \<Rightarrow> Inl UnicodeEncodeError
      | Some bs \<Rightarrow> (case utf8_encode cs of Inl e \<Rightarrow> Inl e | Inr r \<Rightarrow> Inr (bs @ r)))"

text \<open>
  \<open>hashlib.sha256\<close>, after FIPS 180-4, on 32-bit words kept as natural numbers below
  \<open>2 ^ 32\<close>; the round constants and the initial hash value are written in decimal.
\<close>

definition add32 :: "nat \<Rightarrow> nat \<Rightarrow> nat" where
  "add32 a b = (a + b) mod 4294967296"

definition rotr :: "nat \<Rightarrow> nat \<Rightarrow> nat" where
  "rotr n x = x div 2 ^ n + (x mod 2 ^ n) * 2 ^ (32 - n)"

definition shr :: "nat \<Rightarrow> nat \<Rightarrow> nat" where
  "shr n x = x div 2 ^ n"

definition Ch :: "nat \<Rightarrow> nat \<Rightarrow> nat \<Rightarrow> nat" where
  "Ch x y z = (x AND y) XOR ((4294967295 - x) AND z)"

definition Maj :: "nat \<Rightarrow> nat \<Rightarrow> nat \<Rightarrow> nat" where
  "Maj x y z = (x AND y) XOR (x AND z) XOR (y AND z)"

definition bsig0 :: "nat \<Rightarrow> nat" where
  "bsig0 x = rotr 2 x XOR rotr 13 x XOR rotr 22 x"

definition bsig1 :: "nat \<Rightarrow> nat" where
  "bsig1 x = rotr 6 x XOR rotr 11 x XOR rotr 25 x"

definition ssig0 :: "nat \<Rightarrow> nat" where
  "ssig0 x = rotr 7 x XOR rotr 18 x XOR shr 3 x"

definition ssig1 :: "nat \<Rightarrow> nat" where
  "ssig1 x = rotr 17 x XOR rotr 19 x XOR shr 10 x"

definition K256 :: "nat list" where
  "K256 =
    [1116352408, 1899447441, 3049323471, 3921009573, 961987163, 1508970993, 2453635748, 2870763221,
     3624381080, 310598401, 607225278, 1426881987, 1925078388, 2162078206, 2614888103, 3248222580,
     3835390401, 4022224774, 264347078, 604807628, 770255983, 1249150122, 1555081692, 1996064986,
     2554220882, 2821834349, 2952996808, 3210313671, 3336571891, 3584528711, 113926993, 338241895,
     666307205, 773529912, 1294757372, 1396182291, 1695183700, 1986661051, 2177026350, 2456956037,
     2730485921, 2820302411, 3259730800, 3345764771, 3516065817, 3600352804, 4094571909, 275423344,
     430227734, 506948616, 659060556, 883997877, 958139571, 1322822218, 1537002063, 1747873779,
     1955562222, 2024104815, 2227730452, 2361852424, 2428436474, 2756734187, 3204031479, 3329325298]"

definition H256 :: "nat list" where
  "H256 = [1779033703, 3144134277, 1013904242, 2773480762,
           1359893119, 2600822924, 528734635, 1541459225]"

text \<open>
  One round on the working variables \<open>a .. h\<close> and the sliding window of the next 16
  message-schedule words.
\<close>

fun round256 :: "nat list \<times> nat list \<Rightarrow> nat \<Rightarrow> nat list \<times> nat list" where
  "round256 ([a, b, c, d, e, f, g, h],
             [w0, w1, w2, w3, w4, w5, w6, w7, w8, w9, w10, w11, w12, w13, w14, w15]) k =
     ([add32 (add32 (add32 (add32 (add32 h (bsig1 e)) (Ch e f g)) k) w0)
             (add32 (bsig0 a) (Maj a b c)),
       a, b, c,
       add32 d (add32 (add32 (add32 (add32 h (bsig1 e)) (Ch e f g)) k) w0),
       e, f, g],
      [w1, w2, w3, w4, w5, w6, w7, w8, w9, w10, w11, w12, w13, w14, w15,
       add32 (add32 (add32 (ssig1 w14) w9) (ssig0 w1)) w0])"
| "round256 s k = s"

definition compress :: "nat list \<Rightarrow> nat list \<Rightarrow> nat list" where
  "compress hs block = map2 add32 hs (fst (foldl round256 (hs, block) K256))"

fun be32 :: "nat list \<Rightarrow> nat list" where
  "be32 (a # b # c # d # r) = (((a * 256 + b) * 256 + c) * 256 + d) # be32 r"
| "be32 r = []"

fun blocks :: "nat list \<Rightarrow> nat list list" where
  "blocks (w0 # w1 # w2 # w3 # w4 # w5 # w6 # w7 # w8 # w9 # w10 # w11 # w12 # w13 # w14 # w15 # r) =
     [w0, w1, w2, w3, w4, w5, w6, w7, w8, w9, w10, w11, w12, w13, w14, w15] # blocks r"
| "blocks r = []"

definition pad :: "nat list \<Rightarrow> nat list" where
  "pad m = m @ [128] @ replicate ((119 - length m mod 64) mod 64) 0
             @ map (\<lambda>i. (8 * length m) div 256 ^ i mod 256) [7, 6, 5, 4, 3, 2, 1, 0]"

definition sha256 :: "nat list \<Rightarrow> nat list" where
  "sha256 m = foldl compress H256 (blocks (be32 (pad m)))"

definition hex32 :: "nat \<Rightarrow> ustr" where
  "hex32 w = map (\<lambda>i. hex_digit (w div 16 ^ i)) [7, 6, 5, 4, 3, 2, 1, 0]"

definition hexdigest :: "nat list \<Rightarrow> ustr" where
  "hexdigest m = concat (map hex32 (sha256 m))"

text \<open>\<open>hashlib.sha256(content.encode()).hexdigest()[:20]\<close>\<close>

definition generate_cache_id :: "ustr \<Rightarrow> py_error + ustr" where
  "generate_cache_id c =
     (case utf8_encode c of
        Inl e \<Rightarrow> Inl e
      | Inr bytes \<Rightarrow> Inr (slice_to (hexdigest bytes) 20))"

section \<open>Completion executor\<close>

text \<open>
  The state the executor works on: the response cache of the system object, the part of the
  Python heap that holds the message dictionaries (a message list is a list of references
  into it), the next free reference, and the trace of what was done to the outside world.
\<close>

record system =
  response_cache :: "ustr \<rightharpoonup> ustr"
  store :: "nat \<Rightarrow> py_dict"
  next_ref :: nat
  trace :: "event list"

definition primary_model :: ustr where
  "primary_model = ascii ''llama-3.1-70b-versatile''"

definition fallback_models :: "ustr list" where
  "fallback_models = [ascii ''mixtral-8x7b-32768'', ascii ''llama-3.1-8b-instant'']"

definition accuracy_clause :: ustr where
  "accuracy_clause = ascii
     '' Focus on factual, evidence-based analysis. Clearly distinguish between verified information and reasonable estimates.''"

definition sleep :: "nat \<Rightarrow> system \<Rightarrow> system" where
  "sleep n st = st\<lparr>trace := trace st @ [Sleep n]\<rparr>"

definition make_request :: "ustr \<Rightarrow> py_dict list \<Rightarrow> int \<Rightarrow> request" where
  "make_request model msgs max_tokens =
     \<lparr>req_model = model, req_messages = msgs, req_max_tokens = max_tokens,
      req_temperature = 0.1, req_top_p = 0.9, req_frequency_penalty = 0.15, req_timeout = 60\<rparr>"

text \<open>
  The loop \<open>for attempt in range(3)\<close> for one model. The result is \<open>Some content\<close> when
  the function returns from inside the loop, and \<open>None\<close> when the loop ends, by exhaustion
  or by \<open>break\<close>.
\<close>

fun attempt_loop ::
  "env \<Rightarrow> ustr \<Rightarrow> nat list \<Rightarrow> int \<Rightarrow> nat \<Rightarrow> ustr \<Rightarrow> nat list \<Rightarrow> system \<Rightarrow> ustr option \<times> system"
where
  "attempt_loop E cache_id enhanced max_tokens model_index model [] st = (None, st)"
| "attempt_loop E cache_id enhanced max_tokens model_index model (attempt # rest) st =
     (let req = make_request model (map (store st) enhanced) max_tokens;
          st1 = st\<lparr>trace := trace st @ [Dispatch req]\<rparr>
      in case remote E (trace st) req of
           Response choices \<Rightarrow>
             (case choices of
                [] \<Rightarrow> attempt_loop E cache_id enhanced max_tokens model_index model rest st1
              | None # _ \<Rightarrow> attempt_loop E cache_id enhanced max_tokens model_index model rest st1
              | Some c # _ \<Rightarrow>
                  if c \<noteq> [] \<and> 150 < length (strip c)
                  then (Some (strip c),
                        st1\<lparr>response_cache := (response_cache st1)(cache_id \<mapsto> strip c)\<rparr>)
                  else attempt_loop E cache_id enhanced max_tokens model_index model rest st1)
         | RateLimitError \<Rightarrow>
             attempt_loop E cache_id enhanced max_tokens model_index model rest
               (sleep ((attempt + 1) * 15 + model_index * 10) st1)
         | APIError msg \<Rightarrow>
             if contains (lower E msg) (ascii ''decommissioned'')
                \<or> contains (lower E msg) (ascii ''not found'')
             then (None, st1)
             else attempt_loop E cache_id enhanced max_tokens model_index model rest
                    (sleep ((attempt + 1) * 5) st1)
         | OtherException \<Rightarrow>
             attempt_loop E cache_id enhanced max_tokens model_index model rest
               (sleep ((attempt + 1) * 3) st1))"

text \<open>The loop \<open>for model_index, model in enumerate(all_models)\<close>.\<close>

fun model_loop ::
  "env \<Rightarrow> ustr \<Rightarrow> nat list \<Rightarrow> int \<Rightarrow> (nat \<times> ustr) list \<Rightarrow> system \<Rightarrow> ustr option \<times> system"
where
  "model_loop E cache_id enhanced max_tokens [] st = (None, st)"
| "model_loop E cache_id enhanced max_tokens ((model_index, model) # rest) st =
     (case attempt_loop E cache_id enhanced max_tokens model_index model [0, 1, 2] st of
        (Some c, st') \<Rightarrow> (Some c, st')
      | (None, st') \<Rightarrow> model_loop E cache_id enhanced max_tokens rest st')"

definition fallback_text :: "env \<Rightarrow> ustr \<Rightarrow> ustr" where
  "fallback_text E ctx = strip
     (10 # upper E ctx @ text_of_lines
        ['' ANALYSIS - LIMITED AVAILABILITY'',
         [],
         ''Due to high system demand, detailed ''] @ ctx @ text_of_lines
        ['' analysis is temporarily constrained. '',
         ''Key insights based on general market knowledge:'',
         [],
         ''- Market conditions show typical enterprise software adoption patterns'',
         ''- Competitive dynamics reflect standard technology sector characteristics  '',
         ''- Risk factors align with common enterprise technology concerns'',
         ''- Strategic considerations follow established business frameworks'',
         [],
         ''For complete analysis, please retry in a few minutes when system capacity improves.'',
         ''        ''])"

text \<open>
  The statement \<open>d["content"] += s\<close> on the dictionary a reference points to: the
  subscription raises \<open>KeyError\<close> when the dictionary has no such key, and \<open>+=\<close> with a
  string raises \<open>TypeError\<close> on a value that is not a string.
\<close>

definition append_to_content :: "nat \<Rightarrow> ustr \<Rightarrow> system \<Rightarrow> py_error + system" where
  "append_to_content ref s st =
     (case dict_get (store st ref) (ascii ''content'') of
        Inl e \<Rightarrow> Inl e
      | Inr v \<Rightarrow>
          (case v of
             VStr c \<Rightarrow>
               Inr (st\<lparr>store := (store st)
                      (ref := dict_set (ascii ''content'') (VStr (c @ s)) (store st ref))\<rparr>)
           | VNone \<Rightarrow> Inl TypeError
           | VInt i \<Rightarrow> Inl TypeError
           | VObject \<Rightarrow> Inl TypeError))"

text \<open>
  \<open>_execute_groq_call\<close>. The list \<open>messages.copy()\<close> holds the same references as
  \<open>messages\<close>, so the \<open>+=\<close> on the content of its first element writes to the dictionary
  that the caller's list refers to. A result \<open>Inl e\<close> is an exception that leaves the
  function: the serialisation, the fingerprint and the \<open>+=\<close> are outside the \<open>try\<close>
  block.
\<close>

definition execute_groq_call ::
  "env \<Rightarrow> nat list \<Rightarrow> int \<Rightarrow> ustr \<Rightarrow> system \<Rightarrow> (py_error + ustr) \<times> system"
where
  "execute_groq_call E messages max_tokens ctx st =
     (if messages = [] then
        (Inr (ascii ''No input provided for '' @ ctx @ ascii '' analysis.''), st)
      else
        (case json_dumps (map (store st) messages) of
           Inl e \<Rightarrow> (Inl e, st)
         | Inr serialised \<Rightarrow>
             (case generate_cache_id serialised of
                Inl e \<Rightarrow> (Inl e, st)
              | Inr cache_id \<Rightarrow>
                  (case response_cache st cache_id of
                     Some cached \<Rightarrow> (Inr cached, st)
                   | None \<Rightarrow>
                       (let enhanced_messages = messages
                        in case (if enhanced_messages \<noteq> []
                                 then append_to_content (hd enhanced_messages) accuracy_clause st
                                 else Inr st) of
                             Inl e \<Rightarrow> (Inl e, st)
                           | Inr st1 \<Rightarrow>
                               (let all_models = primary_model # fallback_models
                                in case model_loop E cache_id enhanced_messages max_tokens
                                          (zip [0..<length all_models] all_models) st1 of
                                     (Some c, st2) \<Rightarrow> (Inr c, st2)
                                   | (None, st2) \<Rightarrow> (Inr (fallback_text E ctx), st2)))))))"

text \<open>
  The states the system can be in: it starts with an empty cache, the executor is called, and
  between calls the rest of the program may do anything that leaves the cache alone (build
  messages, sleep).
\<close>

inductive reachable :: "env \<Rightarrow> system \<Rightarrow> bool" for E :: env where
  start: "response_cache st = Map.empty \<Longrightarrow> reachable E st"
| call: "reachable E st \<Longrightarrow> execute_groq_call E messages max_tokens ctx st = (r, st')
           \<Longrightarrow> reachable E st'"
| other: "reachable E st \<Longrightarrow> response_cache st' = response_cache st \<Longrightarrow> reachable E st'"

section \<open>Analysis agents\<close>

text \<open>\<open>time.time()\<close> and \<open>datetime.now()\<close>: the clock is read, which is an event.\<close>

definition read_clock :: "env \<Rightarrow> system \<Rightarrow> real \<times> system" where
  "read_clock E st = (clock E (trace st), st\<lparr>trace := trace st @ [ReadClock]\<rparr>)"

text \<open>The token budget of each section, a dictionary with fixed keys.\<close>

definition section_tokens :: "(ustr \<times> int) list" where
  "section_tokens =
     [(ascii ''market'', 1000), (ascii ''competitive'', 1000), (ascii ''risk'', 800),
      (ascii ''recommendations'', 700), (ascii ''summary'', 600)]"

text \<open>A new dictionary on the heap, and the two-message list every agent builds.\<close>

definition new_message :: "py_dict \<Rightarrow> system \<Rightarrow> nat \<times> system" where
  "new_message m st =
     (next_ref st, st\<lparr>store := (store st)(next_ref st := m), next_ref := next_ref st + 1\<rparr>)"

definition system_and_user :: "ustr \<Rightarrow> ustr \<Rightarrow> system \<Rightarrow> nat list \<times> system" where
  "system_and_user system_prompt user_prompt st =
     (let (a, st1) = new_message (message (ascii ''system'') system_prompt) st;
          (b, st2) = new_message (message (ascii ''user'') user_prompt) st1
      in ([a, b], st2))"

text \<open>A step that may raise, followed by the rest of the function.\<close>

definition then_do ::
  "('e + 'a) \<times> 's \<Rightarrow> ('a \<Rightarrow> 's \<Rightarrow> ('e + 'b) \<times> 's) \<Rightarrow> ('e + 'b) \<times> 's" where
  "then_do step rest = (case step of (Inl e, s) \<Rightarrow> (Inl e, s) | (Inr a, s) \<Rightarrow> rest a s)"

definition market_intelligence_agent ::
  "env \<Rightarrow> ustr \<Rightarrow> ustr list \<Rightarrow> system \<Rightarrow> (py_error + ustr) \<times> system" where
  \<open>market_intelligence_agent E query_arg target_list st =
     (let cleaned = clean_input E (PyStr query_arg) 4000 in
      if length cleaned < 5
      then (Inr (ascii ''Insufficient query detail for market intelligence analysis.''), st)
      else
       (let focus_area =
              (if target_list \<noteq> []
               then ascii ''with specific attention to ''
                    @ join (ascii '', '') (slice_to target_list 5)
               else ascii ''across the broader market landscape'');
            system_prompt = text_of_lines
             [''You are a Senior Market Research Analyst providing strategic business intelligence. '',
              ''Deliver comprehensive, structured analysis based on realistic market conditions and established business principles.'',
              ''Always complete your analysis within the allocated response space.''];
            user_prompt = ascii ''Provide comprehensive market intelligence for: ''
            @ cleaned
            @ ascii '' ''
            @ focus_area
            @ (text_of_lines
             [[],
              [],
              ''Deliver analysis in these structured sections:'',
              [],
              ''## MARKET SCALE AND TRAJECTORY'',
              ''Current market size estimates, growth projections, and key expansion drivers'',
              [],
              ''## DOMINANT INDUSTRY PATTERNS  '',
              ''Three most significant trends reshaping the market and technology adoption cycles'',
              [],
              ''## STRATEGIC MARKET OPPORTUNITIES'',
              ''High-potential growth areas and emerging market segments for strategic focus'',
              [],
              ''## MARKET STRUCTURE ANALYSIS'',
              ''Competitive intensity, market concentration, and barriers to market entry'',
              [],
              ''## FORWARD-LOOKING ASSESSMENT'',
              ''12-18 month outlook with critical success factors and performance drivers'',
              [],
              ''Ensure each section provides specific, actionable intelligence suitable for strategic decision-making.'']);
            (messages, st1) = system_and_user system_prompt user_prompt st
        in execute_groq_call E messages (the (map_of section_tokens (ascii ''market'')))
             (ascii ''market_intelligence'') st1))\<close>

definition competitive_intelligence_agent ::
  "env \<Rightarrow> ustr \<Rightarrow> ustr list \<Rightarrow> system \<Rightarrow> (py_error + ustr) \<times> system" where
  \<open>competitive_intelligence_agent E query_arg target_list st =
     (let cleaned = clean_input E (PyStr query_arg) 4000 in
      if length cleaned < 5
      then (Inr (ascii ''Insufficient query detail for competitive intelligence analysis.''), st)
      else
       (let entities = (if target_list = [] then [ascii ''key market leaders''] else target_list);
            competitive_entities = join (ascii '', '') (slice_to entities 6);
            system_prompt = text_of_lines
             [''You are a Competitive Intelligence Specialist providing strategic competitive analysis.'',
              ''Focus on observable market dynamics and logical competitive assessment.'',
              ''Complete all analysis sections within the response constraints.''];
            user_prompt = ascii ''Analyze competitive dynamics for: ''
            @ cleaned
            @ (text_of_lines
             [[],
              [],
              ''**TARGET ENTITIES:** ''])
            @ competitive_entities
            @ (text_of_lines
             [[],
              [],
              ''Provide structured competitive intelligence:'',
              [],
              ''## COMPETITIVE MARKET POSITIONS'',
              ''Current market standing, estimated share insights, and competitive hierarchy'',
              [],
              ''## STRATEGIC COMPETITIVE ADVANTAGES'',
              ''Core differentiators, unique value propositions, and sustainable competitive assets'',
              [],
              ''## COMPETITIVE VULNERABILITIES'',
              ''Strategic weaknesses, market gaps, and potential disruption points'',
              [],
              ''## RECENT COMPETITIVE ACTIVITIES'',
              ''Notable strategic moves, partnerships, market expansion, and product initiatives'',
              [],
              ''## COMPETITIVE OUTLOOK ASSESSMENT'',
              ''Future competitive dynamics, strategic implications, and market evolution patterns'',
              [],
              ''Base analysis on publicly observable competitive behaviors and logical market assessment.'']);
            (messages, st1) = system_and_user system_prompt user_prompt st
        in execute_groq_call E messages (the (map_of section_tokens (ascii ''competitive'')))
             (ascii ''competitive_intelligence'') st1))\<close>

definition risk_assessment_agent ::
  "env \<Rightarrow> ustr \<Rightarrow> ustr \<Rightarrow> system \<Rightarrow> (py_error + ustr) \<times> system" where
  \<open>risk_assessment_agent E query_arg intelligence_context st =
     (let cleaned = clean_input E (PyStr query_arg) 4000;
          ctx = clean_input E (PyStr intelligence_context) 800 in
      if length cleaned < 5
      then (Inr (ascii ''Insufficient query detail for risk assessment.''), st)
      else
       (let system_prompt = text_of_lines
             [''You are a Strategic Risk Analyst providing quantified risk evaluation.'',
              ''Use realistic risk scoring based on actual market conditions and business fundamentals.'',
              ''Complete all risk categories within the response allocation.''];
            user_prompt = ascii ''Conduct strategic risk assessment for: ''
            @ cleaned
            @ (text_of_lines
             [[],
              [],
              ''**INTELLIGENCE CONTEXT:** ''])
            @ slice_to ctx 600
            @ (text_of_lines
             [[],
              [],
              ''Provide quantified risk evaluation across these categories:'',
              [],
              ''## MARKET AND ECONOMIC RISK FACTORS'',
              ''Risk Level: [High/Medium/Low] (Quantified Score: X/10)'',
              ''Primary market vulnerabilities and economic sensitivities'',
              ''Monitoring indicators and mitigation approaches'',
              [],
              ''## COMPETITIVE AND STRATEGIC RISKS  '',
              ''Risk Level: [High/Medium/Low] (Quantified Score: X/10)'',
              ''Competitive threats and strategic execution risks'',
              ''Defensive strategies and competitive countermeasures'',
              [],
              ''## TECHNOLOGY AND INNOVATION RISKS'',
              ''Risk Level: [High/Medium/Low] (Quantified Score: X/10)  '',
              ''Technology disruption threats and innovation challenges'',
              ''Adaptation strategies and technology investment priorities'',
              [],
              ''## REGULATORY AND OPERATIONAL RISKS'',
              ''Risk Level: [High/Medium/Low] (Quantified Score: X/10)'',
              ''Compliance challenges and operational vulnerabilities  '',
              ''Risk mitigation frameworks and operational safeguards'',
              [],
              ''## INTEGRATED RISK PROFILE'',
              ''Overall Risk Assessment Score: X/10'',
              ''Top 3 Priority Risk Areas for Strategic Attention'',
              ''Comprehensive Risk Management Recommendations'',
              [],
              ''Use evidence-based risk evaluation with practical, implementable risk scores.'']);
            (messages, st1) = system_and_user system_prompt user_prompt st
        in execute_groq_call E messages (the (map_of section_tokens (ascii ''risk'')))
             (ascii ''risk_assessment'') st1))\<close>

text \<open>The loop over \<open>complete_analysis.items()\<close> that fills \<open>intelligence_brief\<close>.\<close>

fun intelligence_brief :: "env \<Rightarrow> (ustr \<times> ustr) list \<Rightarrow> ustr list" where
  "intelligence_brief E [] = []"
| "intelligence_brief E ((analysis_type, c) # items) =
     (if c \<noteq> [] \<and> 100 < length (strip c)
      then (upper E analysis_type @ ascii '': '' @ clean_input E (PyStr c) 400)
           # intelligence_brief E items
      else intelligence_brief E items)"

definition strategic_advisor_agent ::
  "env \<Rightarrow> ustr \<Rightarrow> (ustr \<times> ustr) list \<Rightarrow> system \<Rightarrow> (py_error + ustr list \<times> ustr) \<times> system"
where
  \<open>strategic_advisor_agent E query_arg complete_analysis st =
     (let cleaned = clean_input E (PyStr query_arg) 4000 in
      if length cleaned < 5
      then (Inr ([], ascii ''Insufficient query detail for strategic advisory.''), st)
      else
       (let synthesis =
              slice_to (join (ascii '' | '') (intelligence_brief E complete_analysis)) 1200;
            rec_system_prompt = text_of_lines
             [''You are a Senior Strategic Advisor providing executive-level recommendations.'',
              ''Generate exactly 6-8 specific, implementable strategic actions based on the intelligence provided.'',
              ''Each recommendation must be concrete and actionable.''];
            rec_user_prompt = ascii ''Based on comprehensive intelligence analysis for: ''
            @ cleaned
            @ (text_of_lines
             [[],
              [],
              ''**INTELLIGENCE SYNTHESIS:** ''])
            @ synthesis
            @ (text_of_lines
             [[],
              [],
              ''Generate exactly 6-8 strategic recommendations in this precise format:'',
              [],
              ''1. [Specific implementable strategic action]'',
              ''2. [Specific implementable strategic action]'',
              ''3. [Specific implementable strategic action]  '',
              ''4. [Specific implementable strategic action]'',
              ''5. [Specific implementable strategic action]'',
              ''6. [Specific implementable strategic action]'',
              ''7. [Specific implementable strategic action]'',
              ''8. [Specific implementable strategic action]'',
              [],
              ''Each recommendation must be:'',
              ''- Directly derived from the intelligence analysis'',
              ''- Specific and actionable with clear implementation path'',
              ''- Focused on measurable business outcomes'',
              ''- Realistic and achievable within standard business constraints'',
              [],
              ''Do not include introductory text or explanations - provide only the numbered recommendations.'']);
            (messages, st1) = system_and_user rec_system_prompt rec_user_prompt st
        in then_do
             (execute_groq_call E messages
                (the (map_of section_tokens (ascii ''recommendations'')))
                (ascii ''strategic_recommendations'') st1)
             (\<lambda>recommendations_text st2.
                let recommendations = parse_recommendations E recommendations_text;
                    summary_system_prompt = text_of_lines
                     [''You are an Executive Business Consultant creating strategic briefings for senior leadership.'',
                      ''Create a concise, confident executive summary suitable for C-suite decision-making.''];
                    summary_user_prompt = ascii ''Create executive summary for strategic analysis: ''
                    @ cleaned
                    @ (text_of_lines
                     [[],
                      [],
                      ''**COMPREHENSIVE INTELLIGENCE:** ''])
                    @ slice_to synthesis 800
                    @ (text_of_lines
                     [[],
                      ''**STRATEGIC INITIATIVES:** ''])
                    @ str_of_nat (length recommendations)
                    @ (text_of_lines
                     ['' strategic recommendations developed'',
                      [],
                      ''Generate executive summary with exactly 3 paragraphs:'',
                      [],
                      ''**Market Assessment Paragraph:** Current market position, key opportunities, and strategic threats'',
                      ''**Strategic Direction Paragraph:** Recommended strategic approach and competitive positioning  '',
                      ''**Implementation Paragraph:** Expected business impact and critical next steps'',
                      [],
                      ''Use authoritative executive language appropriate for board-level strategic discussions.'']);
                    (summary_messages, st3) =
                       system_and_user summary_system_prompt summary_user_prompt st2
                in then_do
                     (execute_groq_call E summary_messages
                        (the (map_of section_tokens (ascii ''summary'')))
                        (ascii ''executive_summary'') st3)
                     (\<lambda>executive_summary st4.
                        (Inr (recommendations, executive_summary), st4)))))\<close>

section \<open>Analysis orchestrator\<close>

text \<open>\<open>BusinessReport(query=query, targets=targets)\<close> with its \<open>__post_init__\<close>.\<close>

definition new_report :: "ustr \<Rightarrow> ustr list \<Rightarrow> BusinessReport" where
  "new_report q ts =
     \<lparr>query = strip q,
      targets = map strip (filter (\<lambda>t. strip t \<noteq> []) ts),
      market_intelligence = [], competitive_landscape = [], risk_evaluation = [],
      strategic_actions = [], executive_briefing = [],
      analysis_quality = 0, processing_duration = 0, completion_status = []\<rparr>"

text \<open>The target list from the comma-separated input.\<close>

definition parse_targets :: "env \<Rightarrow> ustr \<Rightarrow> ustr list" where
  "parse_targets E targets_input =
     (if targets_input \<noteq> [] \<and> strip targets_input \<noteq> []
      then (let raw_targets = map strip (split_on 44 targets_input);
                targets = map (\<lambda>t. clean_input E (PyStr t) 100)
                            (filter (\<lambda>t. strip t \<noteq> []) (slice_to raw_targets 8))
            in filter (\<lambda>t. 2 < length t) targets)
      else [])"

definition completed_sections :: "BusinessReport \<Rightarrow> ustr" where
  "completed_sections report =
     str_of_nat (length (filter snd (completion_status report)))
     @ ascii ''/'' @ str_of_nat (length (completion_status report))"

text \<open>The lines \<open>**1.** action\<close>, numbered from 1.\<close>

definition numbered_actions :: "ustr list \<Rightarrow> ustr list" where
  "numbered_actions actions =
     map (\<lambda>(idx, action). ascii ''**'' @ str_of_nat idx @ ascii ''.** '' @ action)
       (zip [1..<Suc (length actions)] actions)"

definition create_business_report :: "env \<Rightarrow> BusinessReport \<Rightarrow> system \<Rightarrow> ustr \<times> system" where
  \<open>create_business_report E report st =
     (let (now, st1) = read_clock E st;
          header =
            [ascii ''# Strategic Business Intelligence Report'',
             ascii ''**Analysis Date:** '' @ strftime E now (ascii ''%B %d, %Y at %H:%M UTC''),
             ascii ''**Research Scope:** '' @ query report,
             ascii ''**Analysis Focus:** ''
               @ (if targets report \<noteq> [] then join (ascii '', '') (targets report)
                  else ascii ''Comprehensive Market Coverage''),
             ascii ''**Processing Time:** ''
               @ format_real E (ascii ''.1f'') (processing_duration report)
               @ ascii '' seconds | **Quality Score:** ''
               @ format_real E (ascii ''.0%'') (analysis_quality report),
             ascii ''**Section Completion:** '' @ completed_sections report
               @ ascii '' sections fully delivered'',
             [], ascii ''---'', []];
          summary =
            (if executive_briefing report \<noteq> [] \<and> 100 < length (strip (executive_briefing report))
             then [ascii ''## Executive Summary'', executive_briefing report, [], ascii ''---'', []]
             else []);
          recommendations =
            (if strategic_actions report \<noteq> []
             then [ascii ''## Strategic Recommendations'', []]
                  @ numbered_actions (strategic_actions report) @ [[], ascii ''---'', []]
             else []);
          analysis =
            [ascii ''## Market Intelligence'',
             (if market_intelligence report \<noteq> [] then market_intelligence report
              else ascii ''Market intelligence analysis not available due to system constraints.''),
             [],
             ascii ''## Competitive Landscape'',
             (if competitive_landscape report \<noteq> [] then competitive_landscape report
              else ascii ''Competitive analysis not available due to system constraints.''),
             [],
             ascii ''## Strategic Risk Assessment'',
             (if risk_evaluation report \<noteq> [] then risk_evaluation report
              else ascii ''Risk assessment not available due to system constraints.''),
             [], ascii ''---'', []];
          metrics =
            [ascii ''## Analysis Quality Metrics'',
             ascii ''- **Content Completeness:** '' @ completed_sections report
               @ ascii '' sections delivered'',
             ascii ''- **Strategic Recommendations:** ''
               @ str_of_nat (length (strategic_actions report)) @ ascii '' actionable strategies'',
             ascii ''- **Processing Efficiency:** ''
               @ format_real E (ascii ''.1f'') (processing_duration report)
               @ ascii '' seconds end-to-end'',
             ascii ''- **Analysis Quality Score:** ''
               @ format_real E (ascii ''.1%'') (analysis_quality report),
             ascii ''- **Business Readiness:** ''
               @ (if 0.8 < analysis_quality report then ascii ''Executive-Ready''
                  else if 0.6 < analysis_quality report then ascii ''Business-Standard''
                  else ascii ''Draft-Quality''),
             [],
             [42] @ ascii ''Generated by SRIP Final Production Multi-Agent Intelligence System'' @ [42]]
      in (join [10] (header @ summary @ recommendations @ analysis @ metrics), st1))\<close>

definition validation_report :: ustr where
  \<open>validation_report = text_of_lines
       [[],
        ''# Input Validation Error'',
        [],
        ''**Issue:** Research query must be at least 10 characters with specific business context.'',
        [],
        ''**Valid Query Examples:**'',
        ''- "Strategic analysis of enterprise software market"'',
        ''- "Competitive intelligence for renewable energy sector"'',
        ''- "Market opportunity assessment for fintech solutions"'',
        [],
        ''Please provide a detailed, business-focused research question.'',
        ''                '']\<close>

definition error_name :: "py_error \<Rightarrow> ustr" where
  "error_name e =
     (case e of ZeroDivisionError \<Rightarrow> ascii ''ZeroDivisionError''
              | UnicodeEncodeError \<Rightarrow> ascii ''UnicodeEncodeError''
              | KeyError \<Rightarrow> ascii ''KeyError''
              | TypeError \<Rightarrow> ascii ''TypeError'')"

text \<open>The handler \<open>except Exception as e\<close> of \<open>execute_complete_analysis\<close>.\<close>

definition analysis_failed ::
  "env \<Rightarrow> ustr \<Rightarrow> real \<Rightarrow> py_error \<Rightarrow> system \<Rightarrow> (ustr \<times> ustr) \<times> system" where
  \<open>analysis_failed E query_text analysis_start e st =
     (let error_details = exception_text E e;
          (t, st1) = read_clock E st;
          processing_time = t - analysis_start;
          (now, st2) = read_clock E st1;
          error_report = (text_of_lines
             [[],
              ''# Business Intelligence Analysis Error'',
              [],
              ''**Query:** ''])
            @ query_text
            @ (text_of_lines
             [[],
              ''**Analysis Duration:** ''])
            @ format_real E (ascii ''.1f'') processing_time
            @ (text_of_lines
             ['' seconds  '',
              ''**Error Category:** ''])
            @ error_name e
            @ (text_of_lines
             [[],
              ''**Error Details:** ''])
            @ slice_to error_details 400
            @ (text_of_lines
             [[],
              ''**Timestamp:** ''])
            @ strftime E now (ascii ''%Y-%m-%d %H:%M:%S'')
            @ (text_of_lines
             [[],
              [],
              ''## System Status Assessment'',
              ''- Input Processing: ''])
            @ ascii ''Completed''
            @ (text_of_lines
             [[],
              ''- Agent Orchestration: Error encountered during execution'',
              ''- API Connectivity: Under diagnostic review'',
              ''- Content Generation: Interrupted by system error'',
              [],
              ''## Business Continuity Actions'',
              ''1. Verify query contains specific business intelligence requirements'',
              ''2. Ensure analysis targets are properly formatted (comma-separated)'',
              ''3. Reduce query complexity if addressing very broad market scope'',
              ''4. Retry analysis after brief interval for system recovery'',
              ''5. Contact technical support if errors persist beyond retry attempts'',
              [],
              ''## Technical Recovery'',
              ''System diagnostic protocols are active. Automated recovery procedures will optimize '',
              ''performance parameters for subsequent analysis requests.'',
              [],
              ''*Enterprise-grade error handling and recovery systems engaged*'',
              ''            ''])
      in ((error_report,
           ascii ''Analysis failed: '' @ slice_to error_details 80 @ ascii ''...''), st2))\<close>

text \<open>The \<open>try\<close> block of \<open>execute_complete_analysis\<close> after the validation.\<close>

definition run_agents ::
  "env \<Rightarrow> ustr \<Rightarrow> ustr \<Rightarrow> real \<Rightarrow> system \<Rightarrow> (py_error + ustr \<times> ustr) \<times> system" where
  "run_agents E query_text targets_input analysis_start st =
     (let target_list = parse_targets E targets_input;
          report0 = new_report query_text target_list
      in then_do (market_intelligence_agent E query_text target_list st)
       (\<lambda>market st1.
        let report1 = report0\<lparr>market_intelligence := market,
              completion_status := dict_set (ascii ''market'') (300 < length (strip market))
                                     (completion_status report0)\<rparr>
        in then_do (competitive_intelligence_agent E query_text target_list (sleep 3 st1))
       (\<lambda>competitive st2.
        let report2 = report1\<lparr>competitive_landscape := competitive,
              completion_status := dict_set (ascii ''competitive'')
                                     (300 < length (strip competitive))
                                     (completion_status report1)\<rparr>;
            analysis_context = slice_to (market_intelligence report2) 500 @ ascii '' ''
                               @ slice_to (competitive_landscape report2) 500
        in then_do (risk_assessment_agent E query_text analysis_context (sleep 3 st2))
       (\<lambda>risk st3.
        let report3 = report2\<lparr>risk_evaluation := risk,
              completion_status := dict_set (ascii ''risk'') (200 < length (strip risk))
                                     (completion_status report2)\<rparr>;
            complete_intelligence =
              [(ascii ''market_intelligence'', market_intelligence report3),
               (ascii ''competitive_landscape'', competitive_landscape report3),
               (ascii ''risk_evaluation'', risk_evaluation report3)]
        in then_do (strategic_advisor_agent E query_text complete_intelligence (sleep 3 st3))
       (\<lambda>(actions, briefing) st4.
        let report4 = report3\<lparr>strategic_actions := actions, executive_briefing := briefing\<rparr>;
            report5 = report4\<lparr>completion_status :=
                        dict_set (ascii ''recommendations'') (4 \<le> length (strategic_actions report4))
                          (completion_status report4)\<rparr>;
            report6 = report5\<lparr>completion_status :=
                        dict_set (ascii ''executive'')
                          (200 < length (strip (executive_briefing report5)))
                          (completion_status report5)\<rparr>;
            (t, st5) = read_clock E st4;
            report7 = report6\<lparr>processing_duration := t - analysis_start\<rparr>;
            report8 = report7\<lparr>analysis_quality := calculate_quality_score report7\<rparr>;
            (formatted_report, st6) = create_business_report E report8 st5;
            status_message =
              ascii ''Complete analysis delivered in ''
              @ format_real E (ascii ''.1f'') (processing_duration report8)
              @ ascii ''s | Quality Score: ''
              @ format_real E (ascii ''.0%'') (analysis_quality report8)
              @ ascii '' | Sections Completed: '' @ completed_sections report8
        in (Inr (formatted_report, status_message), st6))))))"

text \<open>
  \<open>execute_complete_analysis\<close>: the clock is read, the query is validated, and only then
  the agents run.
\<close>

definition execute_complete_analysis ::
  "env \<Rightarrow> ustr \<Rightarrow> ustr \<Rightarrow> system \<Rightarrow> (ustr \<times> ustr) \<times> system" where
  "execute_complete_analysis E query_text targets_input st =
     (let (analysis_start, st1) = read_clock E st in
      if query_text = [] \<or> length (strip query_text) < 10
      then ((validation_report, ascii ''Input validation failed: Query insufficient''), st1)
      else
        (case run_agents E (clean_input E (PyStr query_text) 4000) targets_input
                analysis_start st1 of
           (Inr result, st2) \<Rightarrow> (result, st2)
         | (Inl e, st2) \<Rightarrow>
             analysis_failed E (clean_input E (PyStr query_text) 4000) analysis_start e st2))"

section \<open>Concrete inputs\<close>

text \<open>The two-line recommendation text of the parser's specification example.\<close>

definition two_line_example :: ustr where
  "two_line_example = text_of_lines
     [''1. Develop a new channel strategy for enterprise clients'',
      ''2. Expand into APAC markets'']"

text \<open>A report whose only section is incomplete, with a given processing duration.\<close>

definition bare_report :: "real \<Rightarrow> BusinessReport" where
  "bare_report d =
     \<lparr>query = [], targets = [], market_intelligence = [], competitive_landscape = [],
      risk_evaluation = [], strategic_actions = [], executive_briefing = [],
      analysis_quality = 0, processing_duration = d,
      completion_status = [(ascii ''market'', False)]\<rparr>"

text \<open>
  A system that has just started: the cache is empty, and every reference holds the system
  message with content \<open>x\<close>.
\<close>

definition initial_system :: system where
  "initial_system =
     \<lparr>response_cache = Map.empty,
      store = (\<lambda>ref. message (ascii ''system'') (ascii ''x'')),
      next_ref = 2, trace = []\<rparr>"

text \<open>An answer of 151 characters, and the label of a call.\<close>

definition long_answer :: ustr where
  "long_answer = replicate 151 120"

definition market_label :: ustr where
  "market_label = ascii ''market_intelligence''"

text \<open>
  Two environments: a remote service that answers every call with \<open>long_answer\<close>, and one
  that raises a rate-limit failure on every call. Their Unicode tables know no letter or
  digit beyond ASCII, their clock counts the events, and their formatting gives the empty
  string.
\<close>

definition accepting_env :: env where
  "accepting_env =
     \<lparr>uni_alnum = (\<lambda>c. False), uni_decimal = (\<lambda>c. False),
      uni_lower = (\<lambda>s. s), uni_upper = (\<lambda>s. s),
      remote = (\<lambda>tr req. Response [Some long_answer]),
      clock = (\<lambda>tr. real (length tr)),
      format_real = (\<lambda>spec x. []), strftime = (\<lambda>t spec. []),
      exception_text = (\<lambda>e. [])\<rparr>"

definition rate_limited_env :: env where
  "rate_limited_env =
     \<lparr>uni_alnum = (\<lambda>c. False), uni_decimal = (\<lambda>c. False),
      uni_lower = (\<lambda>s. s), uni_upper = (\<lambda>s. s),
      remote = (\<lambda>tr req. RateLimitError),
      clock = (\<lambda>tr. real (length tr)),
      format_real = (\<lambda>spec x. []), strftime = (\<lambda>t spec. []),
      exception_text = (\<lambda>e. [])\<rparr>"

text \<open>
  The state after one call on \<open>initial_system\<close> with the message list \<open>[0]\<close> and 1000
  tokens that the first model answered with \<open>long_answer\<close>.
\<close>

definition accepted_system :: system where
  "accepted_system =
     \<lparr>response_cache = [ascii ''81bcd2642a90538bd8da'' \<mapsto> long_answer],
      store = (\<lambda>ref. if ref = 0
                      then message (ascii ''system'') (ascii ''x'' @ accuracy_clause)
                      else message (ascii ''system'') (ascii ''x'')),
      next_ref = 2,
      trace = [Dispatch (make_request (ascii ''llama-3.1-70b-versatile'')
                 [message (ascii ''system'') (ascii ''x'' @ accuracy_clause)] 1000)]\<rparr>"

text \<open>
  A system that has just started in which every reference holds the dictionary \<open>d\<close>, for
  message lists such as \<open>[{"role": "system"}]\<close>.
\<close>

definition system_holding :: "py_dict \<Rightarrow> system" where
  "system_holding d =
     \<lparr>response_cache = Map.empty, store = (\<lambda>ref. d), next_ref = 2, trace = []\<rparr>"

section \<open>Properties of the sanitizer\<close>

lemma set_strip: "set (strip s) \<subseteq> set s"
proof -
  have "set (strip s) = set (dropWhile is_space (rev (dropWhile is_space s)))"
    by (simp add: strip_def)
  also have "\<dots> \<subseteq> set (rev (dropWhile is_space s))"
    by (meson set_dropWhileD subsetI)
  also have "\<dots> \<subseteq> set s"
    using set_dropWhileD by fastforce
  finally show ?thesis .
qed

lemma set_slice_to: "set (slice_to s n) \<subseteq> set s"
  by (auto simp: slice_to_def dest: in_set_takeD)

lemma length_slice_to: "0 \<le> n \<Longrightarrow> length (slice_to s n) \<le> nat n"
  by (simp add: slice_to_def)

lemma clean_input_allowed: "list_all (allowed_char E) (clean_input E t n)"
proof (cases t)
  case (PyStr s)
  have "set (slice_to (strip (filter (allowed_char E) s)) n)
          \<subseteq> set (strip (filter (allowed_char E) s))"
    by (rule set_slice_to)
  also have "\<dots> \<subseteq> set (filter (allowed_char E) s)"
    by (rule set_strip)
  finally have "\<forall>c \<in> set (slice_to (strip (filter (allowed_char E) s)) n). allowed_char E c"
    by auto
  then show ?thesis using PyStr by (simp add: clean_input_def list_all_iff)
next
  case PyOther
  then show ?thesis by (simp add: clean_input_def)
qed

lemma clean_input_length: "0 \<le> n \<Longrightarrow> length (clean_input E t n) \<le> nat n"
  by (cases t) (simp_all add: clean_input_def length_slice_to)

text \<open>
  C10. For every argument and every maximum length \<open>n \<ge> 0\<close>, \<open>_clean_input\<close> returns a
  string of at most \<open>n\<close> characters, all of them in the allow-listed set (word characters,
  whitespace, the listed punctuation and currency signs); the empty string and every
  argument that is not a string give the empty string.
\<close>

theorem clean_input_bounded_allowed:
  "0 \<le> n \<Longrightarrow>
     length (clean_input E t n) \<le> nat n
     \<and> list_all (allowed_char E) (clean_input E t n)
     \<and> clean_input E (PyStr []) n = []
     \<and> clean_input E PyOther n = []"
  using clean_input_allowed [of E t n] clean_input_length [of n E t]
  by (simp add: clean_input_def)

text \<open>
  At the input \<open>"  a\b<c>  "\<close> with maximum length 3: the backslash is removed, the
  blanks are trimmed and the result is cut to \<open>"ab<"\<close>.
\<close>

theorem clean_input_bounded_allowed_witness:
  "\<forall>E. length (clean_input E (PyStr (ascii ''  a'' @ 92 # ascii ''b<c>  '')) 3) \<le> 3
     \<and> clean_input E (PyStr (ascii ''  a'' @ 92 # ascii ''b<c>  '')) 3 = ascii ''ab<''"
proof
  fix E
  have "(0::int) \<le> 3" by simp
  from clean_input_bounded_allowed [OF this, of E "PyStr (ascii ''  a'' @ 92 # ascii ''b<c>  '')"]
  show "length (clean_input E (PyStr (ascii ''  a'' @ 92 # ascii ''b<c>  '')) 3) \<le> 3
     \<and> clean_input E (PyStr (ascii ''  a'' @ 92 # ascii ''b<c>  '')) 3 = ascii ''ab<''"
    by (simp add: clean_input_def ascii_def allowed_char_def is_word_def is_space_def
        allowed_punct_def strip_def slice_to_def)
qed

section \<open>Properties of the recommendation parser\<close>

lemmas parser_eval = parse_recommendations_def ascii_def strip_def is_space_def
  numbered_match_def bullet_match_def long_group_def is_digit_def dot_plus_def slice_to_def
  action_words_def lower_def is_ascii_def ascii_lower_def

text \<open>
  C3 does not hold of the code. On the two-line example \<open>_parse_recommendations\<close> returns
  four items, not two. The first loop finds the two texts after the numeric markers, which is
  fewer than 4, so the second loop runs. Its guard \<open>line not in recommendations\<close> is there
  to skip what the first loop has found, but it compares the whole line, marker included,
  with the stored texts, which have lost their marker; so both lines (each between 25 and 300
  characters long, with an action verb) are added again. The other two parts of the claim
  hold: the empty string gives the empty list, and no result has more than 8 entries.
\<close>

theorem parse_recommendations_result:
  "parse_recommendations E two_line_example =
     map ascii [''Develop a new channel strategy for enterprise clients'',
                ''Expand into APAC markets'',
                ''1. Develop a new channel strategy for enterprise clients'',
                ''2. Expand into APAC markets'']
   \<and> parse_recommendations E [] = []
   \<and> length (parse_recommendations E txt) \<le> 8"
proof -
  have "length (parse_recommendations E txt) \<le> 8"
    by (simp add: parse_recommendations_def slice_to_def Let_def)
  moreover have "parse_recommendations E [] = []"
    by (simp add: parse_recommendations_def)
  moreover have "parse_recommendations E two_line_example =
     map ascii [''Develop a new channel strategy for enterprise clients'',
                ''Expand into APAC markets'',
                ''1. Develop a new channel strategy for enterprise clients'',
                ''2. Expand into APAC markets'']"
    by (simp add: two_line_example_def parser_eval)
  ultimately show ?thesis by simp
qed

section \<open>Properties of the quality score\<close>

lemma completeness_range:
  "completeness_score r = Inr c \<Longrightarrow> 0 \<le> c \<and> c \<le> 1"
proof -
  assume a: "completeness_score r = Inr c"
  let ?n = "length (completion_status r)"
  let ?k = "length (filter snd (completion_status r))"
  from a have n: "?n \<noteq> 0" and c: "c = real ?k / real ?n"
    by (auto simp: completeness_score_def split: if_splits)
  have "?k \<le> ?n" by simp
  then have "real ?k \<le> real ?n" by simp
  with n c show ?thesis by (simp add: divide_le_eq_1)
qed

lemma content_quality_range: "0 \<le> content_quality r \<and> content_quality r \<le> 1"
  by (simp add: content_quality_def)

lemma performance_range: "0 \<le> performance_score d \<and> performance_score d \<le> 0.15"
  by (simp add: performance_score_def)

lemma unclamped_range:
  assumes "completeness_score r = Inr c"
  shows "0 \<le> c * 0.6 + content_quality r * 0.25"
    and "c * 0.6 + content_quality r * 0.25 \<le> 0.85"
proof -
  from completeness_range [OF assms] have c: "0 \<le> c" "c \<le> 1" by simp_all
  from content_quality_range [of r]
  have q: "0 \<le> content_quality r" "content_quality r \<le> 1" by simp_all
  show "0 \<le> c * 0.6 + content_quality r * 0.25" using c q by simp
  show "c * 0.6 + content_quality r * 0.25 \<le> 0.85" using c q by simp
qed

text \<open>
  C7. The quality score lies in \<open>[0, 1]\<close> for every report: any completion statuses, any
  number of strategic actions, any briefing, any duration (zero, negative or large), and
  also when the division by the number of sections fails and the default 0.75 is returned.
\<close>

theorem quality_score_in_unit_interval:
  "0 \<le> calculate_quality_score r \<and> calculate_quality_score r \<le> 1"
proof (cases "completeness_score r")
  case (Inl e)
  then show ?thesis by (simp add: calculate_quality_score_def quality_body_def)
next
  case (Inr c)
  from unclamped_range [OF Inr] performance_range [of "processing_duration r"]
  show ?thesis using Inr by (simp add: calculate_quality_score_def quality_body_def)
qed

text \<open>
  A duration of 0 seconds is at most 60 and yet earns the partial credit 0.1, not the full
  credit 0.15 that a duration of 30 seconds earns: the test is \<open>0 < duration <= 60\<close>.
\<close>

theorem zero_duration_credit_counterexample:
  "performance_score 0 = 0.1
   \<and> calculate_quality_score (bare_report 0) = 0.1
   \<and> calculate_quality_score (bare_report 30) = 0.15"
  by (simp add: performance_score_def calculate_quality_score_def quality_body_def
      completeness_score_def content_quality_def bare_report_def strip_def)

text \<open>
  C8, amended. For a report with at least one section status, the score is the completeness
  part plus the content part plus a duration credit, never cut by the cap at 1: the credit
  is 0.15 for a duration \<open>d\<close> with \<open>0 < d \<le> 60\<close>, 0.1 for \<open>60 < d \<le> 120\<close> and also for
  \<open>d \<le> 0\<close>, and nothing beyond 120.
\<close>

theorem duration_credit:
  "completeness_score r = Inr c \<Longrightarrow>
     (0 < processing_duration r \<and> processing_duration r \<le> 60 \<longrightarrow>
        calculate_quality_score r = c * 0.6 + content_quality r * 0.25 + 0.15)
   \<and> (60 < processing_duration r \<and> processing_duration r \<le> 120 \<longrightarrow>
        calculate_quality_score r = c * 0.6 + content_quality r * 0.25 + 0.1)
   \<and> (processing_duration r \<le> 0 \<longrightarrow>
        calculate_quality_score r = c * 0.6 + content_quality r * 0.25 + 0.1)
   \<and> (120 < processing_duration r \<longrightarrow>
        calculate_quality_score r = c * 0.6 + content_quality r * 0.25)"
proof -
  assume a: "completeness_score r = Inr c"
  from unclamped_range(2) [OF a]
  have "min (0 + c * 0.6 + content_quality r * 0.25 + performance_score (processing_duration r)) 1
        = c * 0.6 + content_quality r * 0.25 + performance_score (processing_duration r)"
    using performance_range [of "processing_duration r"] by simp
  then have "calculate_quality_score r
        = c * 0.6 + content_quality r * 0.25 + performance_score (processing_duration r)"
    using a by (simp add: calculate_quality_score_def quality_body_def)
  then show ?thesis by (simp add: performance_score_def)
qed

text \<open>The report with one incomplete section, at durations 30, 90, -1 and 121.\<close>

theorem duration_credit_witness:
  "completeness_score (bare_report 30) = Inr 0
   \<and> calculate_quality_score (bare_report 30) = 0.15
   \<and> calculate_quality_score (bare_report 90) = 0.1
   \<and> calculate_quality_score (bare_report (-1)) = 0.1
   \<and> calculate_quality_score (bare_report 121) = 0"
proof -
  have c: "completeness_score (bare_report d) = Inr 0" for d
    by (simp add: completeness_score_def bare_report_def)
  have q: "content_quality (bare_report d) = 0" for d
    by (simp add: content_quality_def bare_report_def strip_def)
  have d: "processing_duration (bare_report d) = d" for d
    by (simp add: bare_report_def)
  show ?thesis
    using duration_credit [OF c [of 30]] duration_credit [OF c [of 90]]
      duration_credit [OF c [of "-1"]] duration_credit [OF c [of 121]]
    by (simp add: c q d)
qed

section \<open>Properties of the serialisation and the fingerprint\<close>

lemma hex_digit_ascii: "hex_digit n < 128"
proof (cases "n mod 16 < 10")
  case True
  then show ?thesis by (simp add: hex_digit_def)
next
  case False
  have "n mod 16 < 16" by simp
  then have "87 + n mod 16 < 128" by linarith
  with False show ?thesis by (simp only: hex_digit_def if_False)
qed

lemma json_escape_char_ascii: "list_all (\<lambda>c. c < 128) (json_escape_char c)"
  by (simp add: json_escape_char_def hex4_def hex_digit_ascii)

lemma json_string_ascii: "list_all (\<lambda>c. c < 128) (json_string s)"
proof -
  have "\<forall>x \<in> set (concat (map json_escape_char s)). x < 128"
    using json_escape_char_ascii by (auto simp: list_all_iff)
  then show ?thesis by (simp add: json_string_def list_all_iff)
qed

text \<open>Whatever \<open>json.dumps\<close> returns is ASCII, so its encoding never raises.\<close>

lemma str_of_nat_ascii: "list_all (\<lambda>c. c < 128) (str_of_nat n)"
proof (induction n rule: str_of_nat.induct)
  case (1 n)
  show ?case
  proof (cases "n < 10")
    case True
    then show ?thesis by (simp add: str_of_nat.simps [of n])
  next
    case False
    have "n mod 10 < 10" by simp
    then have "48 + n mod 10 < 128" by linarith
    with False 1 show ?thesis by (simp add: str_of_nat.simps [of n])
  qed
qed

lemma json_value_ascii: "json_value v = Inr s \<Longrightarrow> list_all (\<lambda>c. c < 128) s"
  using json_string_ascii str_of_nat_ascii
  by (auto simp: json_value_def str_of_int_def ascii_def split: py_value.splits)

lemma json_item_ascii: "json_item kv = Inr s \<Longrightarrow> list_all (\<lambda>c. c < 128) s"
  using json_string_ascii [of "fst kv"] json_value_ascii [of "snd kv"]
  by (auto simp: json_item_def ascii_def split: sum.splits)

lemma collect_all:
  "collect xs = Inr ys \<Longrightarrow> (\<And>x y. x \<in> set xs \<Longrightarrow> x = Inr y \<Longrightarrow> P y) \<Longrightarrow> list_all P ys"
proof (induction xs arbitrary: ys)
  case Nil
  then show ?case by simp
next
  case (Cons x xs)
  from Cons.prems(1) obtain a r where x: "x = Inr a" and r: "collect xs = Inr r" and ys: "ys = a # r"
    by (auto split: sum.splits)
  have "P a" using Cons.prems(2) [of x a] x by simp
  moreover have "list_all P r" using Cons.IH [OF r] Cons.prems(2) by auto
  ultimately show ?case using ys by simp
qed

lemma collect_Inr:
  "(\<And>x. x \<in> set xs \<Longrightarrow> \<exists>y. x = Inr y) \<Longrightarrow> \<exists>ys. collect xs = Inr ys"
proof (induction xs)
  case Nil
  then show ?case by simp
next
  case (Cons x xs)
  from Cons.prems [of x] obtain a where "x = Inr a" by auto
  moreover from Cons.IH Cons.prems obtain r where "collect xs = Inr r" by auto
  ultimately show ?case by simp
qed

lemma join_ascii:
  "list_all (\<lambda>c. c < 128) sep \<Longrightarrow> list_all (list_all (\<lambda>c. c < 128)) ps
     \<Longrightarrow> list_all (\<lambda>c. c < 128) (join sep ps)"
  by (induction sep ps rule: join.induct) simp_all

lemma json_message_ascii: "json_message d = Inr s \<Longrightarrow> list_all (\<lambda>c. c < 128) s"
proof -
  assume a: "json_message d = Inr s"
  then obtain parts where c: "collect (map json_item (sorted_items d)) = Inr parts"
    and s: "s = 123 # join (ascii '', '') parts @ [125]"
    by (auto simp: json_message_def split: sum.splits)
  have "list_all (list_all (\<lambda>c. c < 128)) parts"
    by (rule collect_all [OF c]) (auto dest: json_item_ascii [OF sym])
  then have "list_all (\<lambda>c. c < 128) (join (ascii '', '') parts)"
    by (intro join_ascii) (simp_all add: ascii_def)
  with s show ?thesis by simp
qed

lemma json_dumps_ascii: "json_dumps ms = Inr s \<Longrightarrow> list_all (\<lambda>c. c < 128) s"
proof -
  assume a: "json_dumps ms = Inr s"
  then obtain parts where c: "collect (map json_message ms) = Inr parts"
    and s: "s = 91 # join (ascii '', '') parts @ [93]"
    by (auto simp: json_dumps_def split: sum.splits)
  have "list_all (list_all (\<lambda>c. c < 128)) parts"
    by (rule collect_all [OF c]) (auto dest: json_message_ascii [OF sym])
  then have "list_all (\<lambda>c. c < 128) (join (ascii '', '') parts)"
    by (intro join_ascii) (simp_all add: ascii_def)
  with s show ?thesis by simp
qed

lemma utf8_encode_ascii: "list_all (\<lambda>c. c < 128) s \<Longrightarrow> utf8_encode s = Inr s"
  by (induction s) (simp_all add: utf8_char_def)

lemma generate_cache_id_json:
  "json_dumps ms = Inr s \<Longrightarrow> generate_cache_id s = Inr (slice_to (hexdigest s) 20)"
  by (simp add: generate_cache_id_def utf8_encode_ascii [OF json_dumps_ascii])

lemma json_dumps_nonempty: "json_dumps (m # ms) \<noteq> json_dumps []"
proof -
  have "json_dumps [] = Inr [91, 93]" by (simp add: json_dumps_def)
  moreover have "(\<exists>e. json_dumps (m # ms) = Inl e) \<or> (\<exists>r. json_dumps (m # ms) = Inr (91 # 123 # r))"
    by (cases ms) (auto simp: json_dumps_def json_message_def split: sum.splits)
  ultimately show ?thesis by auto
qed

text \<open>A list of dictionaries without an unserialisable value can be serialised.\<close>

lemma set_insert_item: "set (insert_item x ys) = insert x (set ys)"
  by (induction ys) auto

lemma set_sorted_items: "set (sorted_items d) = set d"
  unfolding sorted_items_def by (induction d) (simp_all add: set_insert_item)

lemma serialisable_entry: "serialisable d \<Longrightarrow> kv \<in> set d \<Longrightarrow> \<exists>s. json_item kv = Inr s"
  by (cases "snd kv") (auto simp: serialisable_def list_all_iff json_item_def json_value_def)

lemma json_message_serialisable: "serialisable d \<Longrightarrow> \<exists>s. json_message d = Inr s"
proof -
  assume sv: "serialisable d"
  have "\<exists>ys. collect (map json_item (sorted_items d)) = Inr ys"
  proof (rule collect_Inr)
    fix x assume "x \<in> set (map json_item (sorted_items d))"
    then obtain kv where kv: "kv \<in> set d" and x: "x = json_item kv"
      by (auto simp: set_sorted_items)
    from serialisable_entry [OF sv kv] x show "\<exists>y. x = Inr y" by simp
  qed
  then show ?thesis by (auto simp: json_message_def)
qed

lemma json_dumps_serialisable: "list_all serialisable ms \<Longrightarrow> \<exists>s. json_dumps ms = Inr s"
proof -
  assume sv: "list_all serialisable ms"
  have "\<exists>ys. collect (map json_message ms) = Inr ys"
  proof (rule collect_Inr)
    fix x assume "x \<in> set (map json_message ms)"
    then obtain d where "d \<in> set ms" and x: "x = json_message d" by auto
    with sv have "serialisable d" by (simp add: list_all_iff)
    from json_message_serialisable [OF this] x show "\<exists>y. x = Inr y" by auto
  qed
  then show ?thesis by (auto simp: json_dumps_def)
qed

lemma text_content:
  "has_text_content d \<Longrightarrow> \<exists>c. dict_get d (ascii ''content'') = Inr (VStr c)"
  by (auto simp: has_text_content_def dict_get_def split: option.splits py_value.splits)

text \<open>
  A message list with a quote, a backslash, control characters and code points beyond ASCII,
  one of them beyond \<open>0xFFFF\<close>, with \<open>None\<close>, a negative integer and an empty
  dictionary, serialised as \<open>json.dumps\<close> does, the keys in sorted order.
\<close>

lemma json_dumps_example:
  \<open>json_dumps
     [message (ascii ''system'') (ascii ''a'' @ [34, 98, 92, 99, 10, 9, 1, 127, 233, 8364, 128512]),
      [(ascii ''role'', VStr (ascii ''user'')), (ascii ''name'', VNone), (ascii ''n'', VInt (- 12)),
       (ascii ''content'', VStr [])], []]
   = Inr (ascii ''[{"content": "a'' @ [92] @ ascii ''"b'' @ [92, 92] @ ascii ''c'' @ [92] @ ascii ''n''
     @ [92] @ ascii ''t'' @ [92] @ ascii ''u0001'' @ [92] @ ascii ''u007f'' @ [92] @ ascii ''u00e9''
     @ [92] @ ascii ''u20ac'' @ [92] @ ascii ''ud83d'' @ [92] @ ascii ''ude00''
     @ ascii ''", "role": "system"}, {"content": "", "n": -12, "name": null, "role": "user"}, {}]'')\<close>
  by (simp add: json_dumps_def json_message_def json_item_def json_value_def sorted_items_def
      message_def json_string_def json_escape_char_def str_of_int_def str_of_nat.simps
      hex4_def hex_digit_def ascii_def)

text \<open>Rules that let the simplifier compute a fingerprint on numerals.\<close>

lemma length_Cons_num: "length (x # xs) = 1 + length xs"
  by simp

lemma replicate_num: "replicate (numeral k) x = x # replicate (pred_numeral k) x"
  by (simp add: numeral_eq_Suc)

lemmas sha_eval = hexdigest_def sha256_def pad_def compress_def K256_def H256_def hex32_def
  hex_digit_def add32_def rotr_def shr_def Ch_def Maj_def bsig0_def bsig1_def ssig0_def ssig1_def
  length_Cons_num replicate_num list.size(3)

lemmas json_eval = json_dumps_def json_message_def json_item_def json_value_def
  sorted_items_def message_def json_string_def json_escape_char_def hex4_def ascii_def

text \<open>
  The serialisations and the fingerprints of the one-message list
  \<open>[{"role": "system", "content": "x"}]\<close> and of the same list with the accuracy clause
  appended, computed by rewriting.
\<close>

lemma serialised_original:
  \<open>json_dumps [message (ascii ''system'') (ascii ''x'')]
     = Inr (ascii ''[{"content": "x", "role": "system"}]'')\<close>
  by (simp add: json_eval)

lemma serialised_enhanced:
  \<open>json_dumps [message (ascii ''system'') (ascii ''x'' @ accuracy_clause)]
     = Inr (ascii ''[{"content": "x'' @ accuracy_clause @ ascii ''", "role": "system"}]'')\<close>
  by (simp add: json_eval accuracy_clause_def)

lemma fingerprint_original:
  \<open>generate_cache_id (ascii ''[{"content": "x", "role": "system"}]'')
     = Inr (ascii ''81bcd2642a90538bd8da'')\<close>
  by (simp del: list.size add: sha_eval generate_cache_id_def utf8_char_def slice_to_def ascii_def)

lemma fingerprint_enhanced:
  \<open>generate_cache_id (ascii ''[{"content": "x'' @ accuracy_clause @ ascii ''", "role": "system"}]'')
     = Inr (ascii ''0ba8ab9e04b9adf4ae08'')\<close>
  by (simp del: list.size add: sha_eval generate_cache_id_def utf8_char_def slice_to_def ascii_def
      accuracy_clause_def)

section \<open>Properties of the executor loops\<close>

text \<open>
  What the loops do to the state: they leave the dictionaries alone and extend the trace; a
  loop that ends without a response leaves the cache as it was, and a response that is
  returned is the stripped content of the answer to the last request dispatched, longer than
  150 characters, and is what was stored.
\<close>

lemma attempt_loop_effect:
  "attempt_loop E k enh mt mi m atts st = (r, st') \<Longrightarrow>
     store st' = store st \<and> next_ref st' = next_ref st
     \<and> (\<exists>evs. trace st' = trace st @ evs)
     \<and> (case r of
           None \<Rightarrow> response_cache st' = response_cache st
         | Some c \<Rightarrow> 150 < length c \<and> response_cache st' = (response_cache st)(k \<mapsto> c)
             \<and> (\<exists>tr req c0 rest. trace st' = tr @ [Dispatch req]
                    \<and> remote E tr req = Response (Some c0 # rest) \<and> c0 \<noteq> [] \<and> c = strip c0))"
proof (induction atts arbitrary: st)
  case Nil
  then show ?case by auto
next
  case (Cons a atts)
  let ?req = "make_request m (map (store st) enh) mt"
  let ?st1 = "st\<lparr>trace := trace st @ [Dispatch ?req]\<rparr>"
  show ?case
  proof (cases "remote E (trace st) ?req")
    case (Response choices)
    show ?thesis
    proof (cases "\<exists>c rest. choices = Some c # rest \<and> c \<noteq> [] \<and> 150 < length (strip c)")
      case True
      then obtain c rest where c: "choices = Some c # rest" "c \<noteq> []" "150 < length (strip c)" by blast
      with Cons.prems Response have r: "r = Some (strip c)"
        and st': "st' = ?st1\<lparr>response_cache := (response_cache ?st1)(k \<mapsto> strip c)\<rparr>"
        by (auto simp: Let_def)
      have "trace st' = trace st @ [Dispatch ?req]" by (simp add: st')
      moreover have "remote E (trace st) ?req = Response (Some c # rest)" using Response c by simp
      ultimately have "\<exists>tr req c0 rest. trace st' = tr @ [Dispatch req]
                    \<and> remote E tr req = Response (Some c0 # rest) \<and> c0 \<noteq> [] \<and> strip c = strip c0"
        using c(2) by blast
      with r st' c(3) show ?thesis by simp
    next
      case False
      with Cons.prems Response
      have "attempt_loop E k enh mt mi m atts ?st1 = (r, st')"
        by (auto simp: Let_def split: list.splits option.splits if_splits)
      from Cons.IH [OF this] show ?thesis by (auto split: option.splits)
    qed
  next
    case RateLimitError
    with Cons.prems
    have "attempt_loop E k enh mt mi m atts (sleep ((a + 1) * 15 + mi * 10) ?st1) = (r, st')"
      by (simp add: Let_def)
    from Cons.IH [OF this] show ?thesis by (auto simp: sleep_def split: option.splits)
  next
    case (APIError msg)
    show ?thesis
    proof (cases "contains (lower E msg) (ascii ''decommissioned'') \<or> contains (lower E msg) (ascii ''not found'')")
      case True
      with Cons.prems APIError show ?thesis by (auto simp: Let_def)
    next
      case False
      with Cons.prems APIError
      have "attempt_loop E k enh mt mi m atts (sleep ((a + 1) * 5) ?st1) = (r, st')"
        by (simp add: Let_def)
      from Cons.IH [OF this] show ?thesis by (auto simp: sleep_def split: option.splits)
    qed
  next
    case OtherException
    with Cons.prems
    have "attempt_loop E k enh mt mi m atts (sleep ((a + 1) * 3) ?st1) = (r, st')"
      by (simp add: Let_def)
    from Cons.IH [OF this] show ?thesis by (auto simp: sleep_def split: option.splits)
  qed
qed

lemma model_loop_effect:
  "model_loop E k enh mt models st = (r, st') \<Longrightarrow>
     store st' = store st \<and> next_ref st' = next_ref st
     \<and> (\<exists>evs. trace st' = trace st @ evs)
     \<and> (case r of
           None \<Rightarrow> response_cache st' = response_cache st
         | Some c \<Rightarrow> 150 < length c \<and> response_cache st' = (response_cache st)(k \<mapsto> c)
             \<and> (\<exists>tr req c0 rest. trace st' = tr @ [Dispatch req]
                    \<and> remote E tr req = Response (Some c0 # rest) \<and> c0 \<noteq> [] \<and> c = strip c0))"
proof (induction models arbitrary: st)
  case Nil
  then show ?case by auto
next
  case (Cons p models)
  obtain mi m where p: "p = (mi, m)" by (cases p)
  obtain r1 st1 where a: "attempt_loop E k enh mt mi m [0, 1, 2] st = (r1, st1)"
    by (cases "attempt_loop E k enh mt mi m [0, 1, 2] st")
  note e1 = attempt_loop_effect [OF a]
  show ?case
  proof (cases r1)
    case None
    with Cons.prems p a have "model_loop E k enh mt models st1 = (r, st')" by simp
    from Cons.IH [OF this] e1 None show ?thesis by (auto split: option.splits)
  next
    case (Some c)
    with Cons.prems p a have "r = Some c" "st' = st1" by simp_all
    with e1 Some show ?thesis by auto
  qed
qed

text \<open>The loops against a remote service that always raises a rate-limit failure.\<close>

lemma attempt_loop_rate_limited:
  "\<forall>tr req. remote E tr req = RateLimitError \<Longrightarrow>
     attempt_loop E k enh mt mi m atts st =
       (None, st\<lparr>trace := trace st @ concat (map (\<lambda>a.
            [Dispatch (make_request m (map (store st) enh) mt), Sleep ((a + 1) * 15 + mi * 10)]) atts)\<rparr>)"
  by (induction atts arbitrary: st) (simp_all add: Let_def sleep_def)

lemma model_loop_rate_limited:
  "\<forall>tr req. remote E tr req = RateLimitError \<Longrightarrow>
     model_loop E k enh mt models st =
       (None, st\<lparr>trace := trace st @ concat (map (\<lambda>(mi, m). concat (map (\<lambda>a.
            [Dispatch (make_request m (map (store st) enh) mt), Sleep ((a + 1) * 15 + mi * 10)])
            [0, 1, 2])) models)\<rparr>)"
proof (induction models arbitrary: st)
  case Nil
  then show ?case by simp
next
  case (Cons p models)
  obtain mi m where p: "p = (mi, m)" by (cases p)
  show ?case
    by (simp del: attempt_loop.simps add: p attempt_loop_rate_limited [OF Cons.prems] Cons.IH [OF Cons.prems])
qed

lemma all_models_enumerated:
  "zip [0..<length (primary_model # fallback_models)] (primary_model # fallback_models)
     = [(0, ascii ''llama-3.1-70b-versatile''), (1, ascii ''mixtral-8x7b-32768''),
        (2, ascii ''llama-3.1-8b-instant'')]"
  by (simp add: fallback_models_def primary_model_def upt_rec)

text \<open>The \<open>+=\<close> on the first message.\<close>

lemma append_to_content_effect:
  "append_to_content ref s st = Inr st1 \<Longrightarrow>
     response_cache st1 = response_cache st \<and> trace st1 = trace st \<and> next_ref st1 = next_ref st
     \<and> (\<exists>c. dict_get (store st ref) (ascii ''content'') = Inr (VStr c)
            \<and> store st1 = (store st)(ref := dict_set (ascii ''content'') (VStr (c @ s)) (store st ref)))"
  by (auto simp: append_to_content_def split: sum.splits py_value.splits)

lemma append_to_content_text:
  "has_text_content (store st ref) \<Longrightarrow> \<exists>st1. append_to_content ref s st = Inr st1"
  using text_content [of "store st ref"]
  by (auto simp: append_to_content_def)

text \<open>A call that misses the cache and gets as far as the loops.\<close>

lemma execute_groq_call_miss:
  assumes ne: "messages \<noteq> []"
    and p: "json_dumps (map (store st) messages) = Inr p"
    and k: "generate_cache_id p = Inr k"
    and miss: "response_cache st k = None"
    and a: "append_to_content (hd messages) accuracy_clause st = Inr st1"
  shows "execute_groq_call E messages max_tokens ctx st =
     (case model_loop E k messages max_tokens
             (zip [0..<length (primary_model # fallback_models)] (primary_model # fallback_models)) st1 of
        (Some c, st2) \<Rightarrow> (Inr c, st2)
      | (None, st2) \<Rightarrow> (Inr (fallback_text E ctx), st2))"
  unfolding execute_groq_call_def Let_def
  using ne p k miss a by (simp del: model_loop.simps)

lemma execute_rate_limited:
  assumes rl: "\<forall>tr req. remote E tr req = RateLimitError"
    and ne: "messages \<noteq> []"
    and p: "json_dumps (map (store st) messages) = Inr p"
    and k: "generate_cache_id p = Inr k"
    and miss: "response_cache st k = None"
    and a: "append_to_content (hd messages) accuracy_clause st = Inr st1"
  shows "execute_groq_call E messages max_tokens ctx st =
     (Inr (fallback_text E ctx),
      st1\<lparr>trace := trace st @ concat (map (\<lambda>(mi, m). concat (map (\<lambda>a.
            [Dispatch (make_request m (map (store st1) messages) max_tokens),
             Sleep ((a + 1) * 15 + mi * 10)])
            [0, 1, 2]))
          [(0, ascii ''llama-3.1-70b-versatile''), (1, ascii ''mixtral-8x7b-32768''),
           (2, ascii ''llama-3.1-8b-instant'')])\<rparr>)"
proof -
  have t: "trace st1 = trace st" using append_to_content_effect [OF a] by simp
  show ?thesis
    unfolding execute_groq_call_miss [OF ne p k miss a] all_models_enumerated
    by (simp del: model_loop.simps add: model_loop_rate_limited [OF rl] t)
qed

lemma execute_groq_call_effect:
  assumes ne: "messages \<noteq> []"
    and run: "execute_groq_call E messages max_tokens ctx st = (r, st')"
  shows "case json_dumps (map (store st) messages) of
      Inl e \<Rightarrow> r = Inl e \<and> st' = st
    | Inr p \<Rightarrow> \<exists>k. generate_cache_id p = Inr k \<and>
        (case response_cache st k of
           Some cached \<Rightarrow> r = Inr cached \<and> st' = st
         | None \<Rightarrow>
            (case append_to_content (hd messages) accuracy_clause st of
               Inl e \<Rightarrow> r = Inl e \<and> st' = st
             | Inr st1 \<Rightarrow>
                 store st' = store st1
                 \<and> (r = Inr (fallback_text E ctx) \<and> response_cache st' = response_cache st
                    \<or> (\<exists>c. r = Inr c \<and> 150 < length c
                          \<and> response_cache st' = (response_cache st)(k \<mapsto> c)
                          \<and> (\<exists>tr req c0 rest. trace st' = tr @ [Dispatch req]
                                \<and> remote E tr req = Response (Some c0 # rest)
                                \<and> c0 \<noteq> [] \<and> c = strip c0)))))"
proof (cases "json_dumps (map (store st) messages)")
  case (Inl e)
  with run ne have "r = Inl e" "st' = st" by (auto simp: execute_groq_call_def)
  then show ?thesis by (simp add: Inl)
next
  case (Inr p)
  note p = this
  let ?k = "slice_to (hexdigest p) 20"
  have k: "generate_cache_id p = Inr ?k" by (rule generate_cache_id_json [OF p])
  show ?thesis
  proof (cases "response_cache st ?k")
    case (Some cached)
    with run ne p k have "r = Inr cached" "st' = st" by (auto simp: execute_groq_call_def)
    then show ?thesis by (simp add: p k Some)
  next
    case None
    note miss = this
    show ?thesis
    proof (cases "append_to_content (hd messages) accuracy_clause st")
      case (Inl e)
      with run ne p k miss have "r = Inl e" "st' = st" by (auto simp: execute_groq_call_def)
      then show ?thesis by (simp add: p k miss Inl)
    next
      case (Inr st1)
      note a = this
      obtain r2 st2 where ml: "model_loop E ?k messages max_tokens
          (zip [0..<length (primary_model # fallback_models)] (primary_model # fallback_models)) st1
          = (r2, st2)"
        by (cases "model_loop E ?k messages max_tokens
          (zip [0..<length (primary_model # fallback_models)] (primary_model # fallback_models)) st1")
      note eff = model_loop_effect [OF ml]
      have c1: "response_cache st1 = response_cache st"
        using append_to_content_effect [OF a] by simp
      from run have res: "st' = st2"
        "r = (case r2 of Some c \<Rightarrow> Inr c | None \<Rightarrow> Inr (fallback_text E ctx))"
        unfolding execute_groq_call_miss [OF ne p k miss a] ml
        by (simp_all split: option.splits)
      show ?thesis
      proof (cases r2)
        case None
        with eff res c1 p k miss a show ?thesis by simp
      next
        case (Some c)
        with eff res c1 p k miss a show ?thesis by simp
      qed
    qed
  qed
qed

lemma strip_middle:
  assumes "\<exists>x \<in> set a. \<not> is_space x" and "\<exists>y \<in> set b. \<not> is_space y"
  shows "strip (a @ m @ b) = dropWhile is_space a @ m @ rev (dropWhile is_space (rev b))"
proof -
  from assms(1) have 1: "dropWhile is_space (a @ m @ b) = dropWhile is_space a @ m @ b"
    by (auto simp: dropWhile_append1)
  from assms(2) have "\<exists>y \<in> set (rev b). \<not> is_space y" by simp
  then have 2: "dropWhile is_space (rev b @ rev m @ rev (dropWhile is_space a))
      = dropWhile is_space (rev b) @ rev m @ rev (dropWhile is_space a)"
    by (auto simp: dropWhile_append1)
  show ?thesis by (simp add: strip_def 1 2)
qed

lemma fallback_text_names_label: "\<exists>pre post. fallback_text E ctx = pre @ ctx @ post"
proof -
  let ?a = "10 # upper E ctx @ text_of_lines
        ['' ANALYSIS - LIMITED AVAILABILITY'', [], ''Due to high system demand, detailed '']"
  let ?b = "text_of_lines
        ['' analysis is temporarily constrained. '',
         ''Key insights based on general market knowledge:'',
         [],
         ''- Market conditions show typical enterprise software adoption patterns'',
         ''- Competitive dynamics reflect standard technology sector characteristics  '',
         ''- Risk factors align with common enterprise technology concerns'',
         ''- Strategic considerations follow established business frameworks'',
         [],
         ''For complete analysis, please retry in a few minutes when system capacity improves.'',
         ''        '']"
  have a: "\<exists>x \<in> set ?a. \<not> is_space x"
    by (rule bexI [of _ 65]) (simp_all add: is_space_def ascii_def)
  have b: "\<exists>y \<in> set ?b. \<not> is_space y"
    by (rule bexI [of _ 97]) (simp_all add: is_space_def ascii_def)
  have "fallback_text E ctx = strip (?a @ ctx @ ?b)"
    by (simp add: fallback_text_def)
  also have "\<dots> = dropWhile is_space ?a @ ctx @ rev (dropWhile is_space (rev ?b))"
    by (rule strip_middle [OF a b])
  finally show ?thesis by blast
qed

text \<open>On well-formed messages no step outside the \<open>try\<close> block raises.\<close>

lemma execute_groq_call_returns:
  assumes wf: "well_formed_messages (map (store st) messages)"
  shows "\<exists>s. fst (execute_groq_call E messages max_tokens ctx st) = Inr s"
proof (cases messages)
  case Nil
  then show ?thesis by (simp add: execute_groq_call_def)
next
  case (Cons m ms)
  then have ne: "messages \<noteq> []" by simp
  from wf Cons have c: "has_text_content (store st m)"
    and all: "list_all serialisable (map (store st) messages)"
    by (simp_all add: well_formed_messages_def)
  from json_dumps_serialisable [OF all]
  obtain p where p: "json_dumps (map (store st) messages) = Inr p" by blast
  let ?k = "slice_to (hexdigest p) 20"
  have k: "generate_cache_id p = Inr ?k" by (rule generate_cache_id_json [OF p])
  show ?thesis
  proof (cases "response_cache st ?k")
    case (Some cached)
    with ne p k show ?thesis by (simp add: execute_groq_call_def)
  next
    case None
    from append_to_content_text [OF c, of accuracy_clause] Cons
    obtain st1 where a: "append_to_content (hd messages) accuracy_clause st = Inr st1" by auto
    show ?thesis
      unfolding execute_groq_call_miss [OF ne p k None a]
      by (simp split: prod.splits option.splits)
  qed
qed

text \<open>
  The exit after the loops: when no model gave an accepted response, the function returns
  the fallback text in the state the loops ended in, and the cache is as it was on entry.
\<close>

lemma execute_exhausted:
  assumes ne: "messages \<noteq> []"
    and p: "json_dumps (map (store st) messages) = Inr p"
    and k: "generate_cache_id p = Inr k"
    and miss: "response_cache st k = None"
    and a: "append_to_content (hd messages) accuracy_clause st = Inr st1"
    and ml: "model_loop E k messages max_tokens
               (zip [0..<length (primary_model # fallback_models)] (primary_model # fallback_models))
               st1 = (None, st2)"
  shows "execute_groq_call E messages max_tokens ctx st = (Inr (fallback_text E ctx), st2)
         \<and> response_cache st2 = response_cache st"
proof -
  have "response_cache st1 = response_cache st" using append_to_content_effect [OF a] by simp
  moreover have "response_cache st2 = response_cache st1" using model_loop_effect [OF ml] by simp
  ultimately show ?thesis
    unfolding execute_groq_call_miss [OF ne p k miss a] ml by simp
qed

lemma execute_groq_call_cache:
  assumes run: "execute_groq_call E messages max_tokens ctx st = (r, st')"
  shows "response_cache st' = response_cache st
     \<or> (\<exists>k tr req c rest. trace st' = tr @ [Dispatch req]
            \<and> remote E tr req = Response (Some c # rest) \<and> c \<noteq> [] \<and> 150 < length (strip c)
            \<and> r = Inr (strip c) \<and> response_cache st' = (response_cache st)(k \<mapsto> strip c))"
proof (cases "messages = []")
  case True
  with run have "st' = st" by (simp add: execute_groq_call_def)
  then show ?thesis by simp
next
  case False
  note e = execute_groq_call_effect [OF False run]
  show ?thesis
  proof (cases "json_dumps (map (store st) messages)")
    case (Inl e')
    with e show ?thesis by simp
  next
    case (Inr p)
    with e obtain k where c: "case response_cache st k of
           Some cached \<Rightarrow> r = Inr cached \<and> st' = st
         | None \<Rightarrow>
            (case append_to_content (hd messages) accuracy_clause st of
               Inl e \<Rightarrow> r = Inl e \<and> st' = st
             | Inr st1 \<Rightarrow>
                 store st' = store st1
                 \<and> (r = Inr (fallback_text E ctx) \<and> response_cache st' = response_cache st
                    \<or> (\<exists>c. r = Inr c \<and> 150 < length c
                          \<and> response_cache st' = (response_cache st)(k \<mapsto> c)
                          \<and> (\<exists>tr req c0 rest. trace st' = tr @ [Dispatch req]
                                \<and> remote E tr req = Response (Some c0 # rest)
                                \<and> c0 \<noteq> [] \<and> c = strip c0))))"
      by auto
    show ?thesis
    proof (cases "response_cache st k")
      case (Some cached)
      with c show ?thesis by simp
    next
      case None
      note miss = this
      show ?thesis
      proof (cases "append_to_content (hd messages) accuracy_clause st")
        case (Inl e')
        with c miss show ?thesis by simp
      next
        case (Inr st1)
        with c miss have "r = Inr (fallback_text E ctx) \<and> response_cache st' = response_cache st
                    \<or> (\<exists>c. r = Inr c \<and> 150 < length c
                          \<and> response_cache st' = (response_cache st)(k \<mapsto> c)
                          \<and> (\<exists>tr req c0 rest. trace st' = tr @ [Dispatch req]
                                \<and> remote E tr req = Response (Some c0 # rest)
                                \<and> c0 \<noteq> [] \<and> c = strip c0))"
          by simp
        then show ?thesis
        proof
          assume "r = Inr (fallback_text E ctx) \<and> response_cache st' = response_cache st"
          then show ?thesis by simp
        next
          assume "\<exists>c. r = Inr c \<and> 150 < length c
                          \<and> response_cache st' = (response_cache st)(k \<mapsto> c)
                          \<and> (\<exists>tr req c0 rest. trace st' = tr @ [Dispatch req]
                                \<and> remote E tr req = Response (Some c0 # rest)
                                \<and> c0 \<noteq> [] \<and> c = strip c0)"
          then obtain tr req c0 rest where "r = Inr (strip c0)" "150 < length (strip c0)"
            "response_cache st' = (response_cache st)(k \<mapsto> strip c0)"
            "trace st' = tr @ [Dispatch req]" "remote E tr req = Response (Some c0 # rest)"
            "c0 \<noteq> []"
            by blast
          then show ?thesis by blast
        qed
      qed
    qed
  qed
qed

section \<open>Two concrete runs\<close>

lemma strip_long_answer: "strip long_answer = long_answer"
  by (simp add: strip_def long_answer_def is_space_def dropWhile_replicate)

lemma length_long_answer: "length long_answer = 151"
  by (simp add: long_answer_def)

lemma long_answer_nonempty: "long_answer \<noteq> []"
  using length_long_answer by auto

lemma initial_messages:
  "store initial_system n = message (ascii ''system'') (ascii ''x'')"
  by (simp add: initial_system_def)

lemma accepted_messages:
  "store accepted_system 0 = message (ascii ''system'') (ascii ''x'' @ accuracy_clause)"
  "store accepted_system (Suc n) = message (ascii ''system'') (ascii ''x'')"
  by (simp_all add: accepted_system_def)

lemma accepted_cache:
  "response_cache accepted_system (ascii ''81bcd2642a90538bd8da'') = Some long_answer"
  "response_cache accepted_system (ascii ''0ba8ab9e04b9adf4ae08'') = None"
  by (simp_all add: accepted_system_def ascii_def)

lemma initial_serialised:
  \<open>json_dumps (map (store initial_system) [0])
     = Inr (ascii ''[{"content": "x", "role": "system"}]'')\<close>
  by (simp add: initial_messages serialised_original)

lemma accepted_serialised:
  \<open>json_dumps (map (store accepted_system) [0])
     = Inr (ascii ''[{"content": "x'' @ accuracy_clause @ ascii ''", "role": "system"}]'')\<close>
  \<open>json_dumps (map (store accepted_system) [1])
     = Inr (ascii ''[{"content": "x", "role": "system"}]'')\<close>
  by (simp_all add: accepted_messages serialised_original serialised_enhanced)

lemma initial_miss: "response_cache initial_system k = None"
  by (simp add: initial_system_def)

lemma rate_limited_remote: "\<forall>tr req. remote rate_limited_env tr req = RateLimitError"
  by (simp add: rate_limited_env_def)

lemma message_append:
  "append_to_content ref s st = Inr
     (st\<lparr>store := (store st)(ref := message r (c @ s))\<rparr>)"
  if "store st ref = message r c"
  using that by (simp add: append_to_content_def dict_get_def message_def ascii_def)

lemma initial_well_formed: "well_formed_messages (map (store initial_system) [0])"
  by (simp add: well_formed_messages_def serialisable_def has_text_content_def initial_messages
      message_def ascii_def)

lemma run_accepting:
  "execute_groq_call accepting_env [0] 1000 market_label initial_system
     = (Inr long_answer, accepted_system)"
proof -
  have ne: "[0::nat] \<noteq> []" by simp
  have r: "remote accepting_env tr req = Response [Some long_answer]" for tr req
    by (simp add: accepting_env_def)
  have a: "append_to_content (hd [0]) accuracy_clause initial_system = Inr
     (initial_system\<lparr>store := (store initial_system)
        (0 := message (ascii ''system'') (ascii ''x'' @ accuracy_clause))\<rparr>)"
    by (simp add: message_append [OF initial_messages])
  show ?thesis
    unfolding execute_groq_call_miss [OF ne initial_serialised fingerprint_original initial_miss a]
      all_models_enumerated
    by (simp add: r strip_long_answer length_long_answer long_answer_nonempty
        initial_system_def accepted_system_def fun_eq_iff)
qed

lemma rate_limited_run:
  "execute_groq_call rate_limited_env [0] 1000 market_label initial_system =
     (Inr (fallback_text rate_limited_env market_label),
      initial_system
        \<lparr>store := (store initial_system)(0 := message (ascii ''system'') (ascii ''x'' @ accuracy_clause)),
         trace := concat (map (\<lambda>(mi, m). concat (map (\<lambda>a.
            [Dispatch (make_request m [message (ascii ''system'') (ascii ''x'' @ accuracy_clause)] 1000),
             Sleep ((a + 1) * 15 + mi * 10)])
            [0, 1, 2]))
          [(0, ascii ''llama-3.1-70b-versatile''), (1, ascii ''mixtral-8x7b-32768''),
           (2, ascii ''llama-3.1-8b-instant'')])\<rparr>)"
proof -
  have ne: "[0::nat] \<noteq> []" by simp
  have a: "append_to_content (hd [0]) accuracy_clause initial_system = Inr
     (initial_system\<lparr>store := (store initial_system)
        (0 := message (ascii ''system'') (ascii ''x'' @ accuracy_clause))\<rparr>)"
    by (simp add: message_append [OF initial_messages])
  show ?thesis
    unfolding execute_rate_limited [OF rate_limited_remote ne initial_serialised
        fingerprint_original initial_miss a]
    by (simp add: initial_system_def)
qed

section \<open>Properties of the executor and the response cache\<close>

text \<open>
  C1, amended. The cache fingerprint is computed over the message list as it is on entry,
  before the accuracy clause is appended: for every non-empty list of messages that can be
  serialised, the key \<open>k\<close> under which a response is looked up, and under which an accepted
  response is stored, is the fingerprint of the serialised original messages. (When the
  serialisation raises, the exception leaves the function and nothing is looked up or
  stored.)
\<close>

theorem cache_key_is_entry_fingerprint:
  "messages \<noteq> [] \<Longrightarrow> execute_groq_call E messages max_tokens ctx st = (r, st') \<Longrightarrow>
     (case json_dumps (map (store st) messages) of
        Inl e \<Rightarrow> r = Inl e \<and> st' = st
      | Inr serialised \<Rightarrow>
          \<exists>k. generate_cache_id serialised = Inr k
            \<and> (case response_cache st k of
                 Some cached \<Rightarrow> r = Inr cached \<and> st' = st
               | None \<Rightarrow>
                   response_cache st' = response_cache st
                   \<or> (\<exists>c. r = Inr c \<and> response_cache st' = (response_cache st)(k \<mapsto> c))))"
proof -
  assume ne: "messages \<noteq> []" and run: "execute_groq_call E messages max_tokens ctx st = (r, st')"
  note e = execute_groq_call_effect [OF ne run]
  show ?thesis
  proof (cases "json_dumps (map (store st) messages)")
    case (Inl e')
    with e show ?thesis by simp
  next
    case (Inr p)
    with e obtain k where k: "generate_cache_id p = Inr k" and c: "case response_cache st k of
           Some cached \<Rightarrow> r = Inr cached \<and> st' = st
         | None \<Rightarrow>
            (case append_to_content (hd messages) accuracy_clause st of
               Inl e \<Rightarrow> r = Inl e \<and> st' = st
             | Inr st1 \<Rightarrow>
                 store st' = store st1
                 \<and> (r = Inr (fallback_text E ctx) \<and> response_cache st' = response_cache st
                    \<or> (\<exists>c. r = Inr c \<and> 150 < length c
                          \<and> response_cache st' = (response_cache st)(k \<mapsto> c)
                          \<and> (\<exists>tr req c0 rest. trace st' = tr @ [Dispatch req]
                                \<and> remote E tr req = Response (Some c0 # rest)
                                \<and> c0 \<noteq> [] \<and> c = strip c0))))"
      by auto
    have "case response_cache st k of
                 Some cached \<Rightarrow> r = Inr cached \<and> st' = st
               | None \<Rightarrow>
                   response_cache st' = response_cache st
                   \<or> (\<exists>c. r = Inr c \<and> response_cache st' = (response_cache st)(k \<mapsto> c))"
    proof (cases "response_cache st k")
      case (Some cached)
      with c show ?thesis by simp
    next
      case None
      with c show ?thesis
        by (cases "append_to_content (hd messages) accuracy_clause st") auto
    qed
    with k Inr show ?thesis by auto
  qed
qed

text \<open>
  A call on the system that has just started, answered by the remote service at once.
\<close>

theorem cache_key_is_entry_fingerprint_witness:
  \<open>execute_groq_call accepting_env [0] 1000 market_label initial_system
     = (Inr long_answer, accepted_system)
   \<and> json_dumps (map (store initial_system) [0])
       = Inr (ascii ''[{"content": "x", "role": "system"}]'')
   \<and> generate_cache_id (ascii ''[{"content": "x", "role": "system"}]'')
       = Inr (ascii ''81bcd2642a90538bd8da'')
   \<and> response_cache initial_system (ascii ''81bcd2642a90538bd8da'') = None
   \<and> (response_cache accepted_system = response_cache initial_system
      \<or> (\<exists>c. Inr long_answer = (Inr c :: py_error + ustr)
            \<and> response_cache accepted_system
                = (response_cache initial_system)(ascii ''81bcd2642a90538bd8da'' \<mapsto> c)))\<close>
proof -
  have ne: "[0::nat] \<noteq> []" by simp
  have miss: "response_cache initial_system (ascii ''81bcd2642a90538bd8da'') = None"
    by (rule initial_miss)
  from cache_key_is_entry_fingerprint [OF ne run_accepting]
  have "response_cache accepted_system = response_cache initial_system
      \<or> (\<exists>c. Inr long_answer = (Inr c :: py_error + ustr)
            \<and> response_cache accepted_system
                = (response_cache initial_system)(ascii ''81bcd2642a90538bd8da'' \<mapsto> c))"
    unfolding initial_serialised using miss by (simp add: fingerprint_original)
  with miss run_accepting initial_serialised fingerprint_original show ?thesis by simp
qed

text \<open>
  In that call the messages that were sent are the enhanced ones and their fingerprint is
  \<open>0ba8ab9e04b9adf4ae08\<close>, but the cache holds nothing under this key: the answer is stored
  under \<open>81bcd2642a90538bd8da\<close>, the fingerprint of the messages on entry.
\<close>

theorem cache_key_enhanced_counterexample:
  \<open>execute_groq_call accepting_env [0] 1000 market_label initial_system
     = (Inr long_answer, accepted_system)
   \<and> map (store accepted_system) [0]
       = [message (ascii ''system'') (ascii ''x'' @ accuracy_clause)]
   \<and> trace accepted_system
       = [Dispatch (make_request (ascii ''llama-3.1-70b-versatile'')
                      (map (store accepted_system) [0]) 1000)]
   \<and> json_dumps (map (store accepted_system) [0])
       = Inr (ascii ''[{"content": "x'' @ accuracy_clause @ ascii ''", "role": "system"}]'')
   \<and> generate_cache_id (ascii ''[{"content": "x'' @ accuracy_clause @ ascii ''", "role": "system"}]'')
       = Inr (ascii ''0ba8ab9e04b9adf4ae08'')
   \<and> response_cache accepted_system (ascii ''0ba8ab9e04b9adf4ae08'') = None
   \<and> json_dumps (map (store initial_system) [0])
       = Inr (ascii ''[{"content": "x", "role": "system"}]'')
   \<and> generate_cache_id (ascii ''[{"content": "x", "role": "system"}]'')
       = Inr (ascii ''81bcd2642a90538bd8da'')
   \<and> response_cache accepted_system (ascii ''81bcd2642a90538bd8da'') = Some long_answer\<close>
proof -
  have "trace accepted_system
       = [Dispatch (make_request (ascii ''llama-3.1-70b-versatile'')
                      (map (store accepted_system) [0]) 1000)]"
    by (simp add: accepted_system_def)
  moreover have "map (store accepted_system) [0]
       = [message (ascii ''system'') (ascii ''x'' @ accuracy_clause)]"
    by (simp add: accepted_messages)
  ultimately show ?thesis
    using run_accepting accepted_cache fingerprint_original fingerprint_enhanced
      initial_serialised accepted_serialised(1)
    by simp
qed

text \<open>
  A list whose only message is the dictionary \<open>d\<close>, on a system that has just started: an
  exception of the serialisation or of the \<open>+=\<close> leaves the function.
\<close>

lemma system_holding_unserialisable:
  "json_dumps [d] = Inl e \<Longrightarrow>
     execute_groq_call E [0] max_tokens ctx (system_holding d) = (Inl e, system_holding d)"
  by (simp add: execute_groq_call_def system_holding_def)

lemma system_holding_append_raises:
  assumes p: "json_dumps [d] = Inr p"
    and a: "append_to_content 0 accuracy_clause (system_holding d) = Inl e"
  shows "execute_groq_call E [0] max_tokens ctx (system_holding d) = (Inl e, system_holding d)"
proof -
  have p': "json_dumps (map (store (system_holding d)) [0]) = Inr p"
    using p by (simp add: system_holding_def)
  have miss: "response_cache (system_holding d) k = None" for k
    by (simp add: system_holding_def)
  show ?thesis
    unfolding execute_groq_call_def
    using p' a generate_cache_id_json [OF p'] miss
    by simp
qed

text \<open>
  C2 does not hold as stated. The executor raises \<open>KeyError\<close> on
  \<open>[{"role": "system"}]\<close>, and \<open>TypeError\<close> on a first message whose content is
  \<open>None\<close> or an object that cannot be serialised, although the remote service would answer:
  the serialisation and the \<open>+=\<close> are outside the \<open>try\<close> block. And against a remote
  service that always raises a rate-limit failure, a call with no message returns the text
  \<open>No input provided for ... analysis.\<close> and a call whose messages have a cached response
  returns that response, both without any attempt and neither being the fallback text.
\<close>

theorem executor_raises_counterexample:
  "execute_groq_call accepting_env [0] 1000 market_label
       (system_holding [(ascii ''role'', VStr (ascii ''system''))])
     = (Inl KeyError, system_holding [(ascii ''role'', VStr (ascii ''system''))])
   \<and> execute_groq_call accepting_env [0] 1000 market_label
       (system_holding [(ascii ''role'', VStr (ascii ''system'')), (ascii ''content'', VNone)])
     = (Inl TypeError,
        system_holding [(ascii ''role'', VStr (ascii ''system'')), (ascii ''content'', VNone)])
   \<and> execute_groq_call accepting_env [0] 1000 market_label
       (system_holding [(ascii ''role'', VStr (ascii ''system'')), (ascii ''content'', VObject)])
     = (Inl TypeError,
        system_holding [(ascii ''role'', VStr (ascii ''system'')), (ascii ''content'', VObject)])
   \<and> execute_groq_call rate_limited_env [] 1000 market_label initial_system
     = (Inr (ascii ''No input provided for market_intelligence analysis.''), initial_system)
   \<and> execute_groq_call rate_limited_env [1] 1000 market_label accepted_system
     = (Inr long_answer, accepted_system)
   \<and> fallback_text rate_limited_env market_label
       \<noteq> ascii ''No input provided for market_intelligence analysis.''
   \<and> fallback_text rate_limited_env market_label \<noteq> long_answer"
proof -
  have 1: "execute_groq_call accepting_env [0] 1000 market_label
       (system_holding [(ascii ''role'', VStr (ascii ''system''))])
     = (Inl KeyError, system_holding [(ascii ''role'', VStr (ascii ''system''))])"
    by (rule system_holding_append_raises [where p = \<open>ascii ''[{"role": "system"}]''\<close>])
      (simp_all add: json_eval append_to_content_def dict_get_def system_holding_def)
  have 2: "execute_groq_call accepting_env [0] 1000 market_label
       (system_holding [(ascii ''role'', VStr (ascii ''system'')), (ascii ''content'', VNone)])
     = (Inl TypeError,
        system_holding [(ascii ''role'', VStr (ascii ''system'')), (ascii ''content'', VNone)])"
    by (rule system_holding_append_raises
          [where p = \<open>ascii ''[{"content": null, "role": "system"}]''\<close>])
      (simp_all add: json_eval append_to_content_def dict_get_def system_holding_def)
  have 3: "execute_groq_call accepting_env [0] 1000 market_label
       (system_holding [(ascii ''role'', VStr (ascii ''system'')), (ascii ''content'', VObject)])
     = (Inl TypeError,
        system_holding [(ascii ''role'', VStr (ascii ''system'')), (ascii ''content'', VObject)])"
    by (rule system_holding_unserialisable) (simp add: json_eval)
  have 4: "execute_groq_call rate_limited_env [] 1000 market_label initial_system
     = (Inr (ascii ''No input provided for market_intelligence analysis.''), initial_system)"
    by (simp add: execute_groq_call_def market_label_def ascii_def)
  have 5: "execute_groq_call rate_limited_env [1] 1000 market_label accepted_system
     = (Inr long_answer, accepted_system)"
    by (simp add: execute_groq_call_def accepted_serialised(2) [simplified]
        fingerprint_original accepted_cache)
  have h: "hd (fallback_text rate_limited_env market_label) = 77"
    by (simp add: fallback_text_def market_label_def upper_def is_ascii_def ascii_upper_def
        strip_def is_space_def ascii_def rate_limited_env_def)
  have 6: "fallback_text rate_limited_env market_label
       \<noteq> ascii ''No input provided for market_intelligence analysis.''"
    using h by (auto simp: ascii_def)
  have 7: "fallback_text rate_limited_env market_label \<noteq> long_answer"
    using h by (auto simp: long_answer_def replicate_num)
  from 1 2 3 4 5 6 7 show ?thesis by simp
qed

text \<open>
  C2, amended. On well-formed messages (every dictionary can be serialised and the first
  message has a string under \<open>content\<close>) the executor never raises: for every such list and
  every behaviour of the remote service, \<open>_execute_groq_call\<close> returns a string. The fallback text names the context
  label. If moreover the remote service raises a rate-limit failure on every attempt, the
  list is not empty and the cache holds no response under its fingerprint, the call returns
  the fallback text after exactly three attempts for each of the three configured models, in
  order, sleeping \<open>(attempt + 1) * 15 + model_index * 10\<close> seconds after each, and leaves
  the cache as it was.
\<close>

theorem executor_never_raises:
  "well_formed_messages (map (store st) messages) \<Longrightarrow>
   (\<exists>s. fst (execute_groq_call E messages max_tokens ctx st) = Inr s)
   \<and> (\<exists>pre post. fallback_text E ctx = pre @ ctx @ post)
   \<and> primary_model # fallback_models
       = [ascii ''llama-3.1-70b-versatile'', ascii ''mixtral-8x7b-32768'',
          ascii ''llama-3.1-8b-instant'']
   \<and> ((\<forall>tr req. remote E tr req = RateLimitError)
        \<and> messages \<noteq> []
        \<and> json_dumps (map (store st) messages) = Inr serialised
        \<and> generate_cache_id serialised = Inr k
        \<and> response_cache st k = None
      \<longrightarrow> (let (r, st') = execute_groq_call E messages max_tokens ctx st;
                dispatch = (\<lambda>model. Dispatch (make_request model (map (store st') messages) max_tokens))
            in r = Inr (fallback_text E ctx)
               \<and> response_cache st' = response_cache st
               \<and> trace st' = trace st @
                    [dispatch (ascii ''llama-3.1-70b-versatile''), Sleep 15,
                     dispatch (ascii ''llama-3.1-70b-versatile''), Sleep 30,
                     dispatch (ascii ''llama-3.1-70b-versatile''), Sleep 45,
                     dispatch (ascii ''mixtral-8x7b-32768''), Sleep 25,
                     dispatch (ascii ''mixtral-8x7b-32768''), Sleep 40,
                     dispatch (ascii ''mixtral-8x7b-32768''), Sleep 55,
                     dispatch (ascii ''llama-3.1-8b-instant''), Sleep 35,
                     dispatch (ascii ''llama-3.1-8b-instant''), Sleep 50,
                     dispatch (ascii ''llama-3.1-8b-instant''), Sleep 65]))"
proof -
  assume wf: "well_formed_messages (map (store st) messages)"
  have "(let (r, st') = execute_groq_call E messages max_tokens ctx st;
                dispatch = (\<lambda>model. Dispatch (make_request model (map (store st') messages) max_tokens))
            in r = Inr (fallback_text E ctx)
               \<and> response_cache st' = response_cache st
               \<and> trace st' = trace st @
                    [dispatch (ascii ''llama-3.1-70b-versatile''), Sleep 15,
                     dispatch (ascii ''llama-3.1-70b-versatile''), Sleep 30,
                     dispatch (ascii ''llama-3.1-70b-versatile''), Sleep 45,
                     dispatch (ascii ''mixtral-8x7b-32768''), Sleep 25,
                     dispatch (ascii ''mixtral-8x7b-32768''), Sleep 40,
                     dispatch (ascii ''mixtral-8x7b-32768''), Sleep 55,
                     dispatch (ascii ''llama-3.1-8b-instant''), Sleep 35,
                     dispatch (ascii ''llama-3.1-8b-instant''), Sleep 50,
                     dispatch (ascii ''llama-3.1-8b-instant''), Sleep 65])"
    if rl: "\<forall>tr req. remote E tr req = RateLimitError"
      and ne: "messages \<noteq> []"
      and p: "json_dumps (map (store st) messages) = Inr serialised"
      and k: "generate_cache_id serialised = Inr k"
      and miss: "response_cache st k = None"
  proof -
    from ne obtain m ms where ms: "messages = m # ms" by (cases messages) auto
    with wf have "has_text_content (store st m)"
      by (simp add: well_formed_messages_def)
    from append_to_content_text [OF this, of accuracy_clause] ms
    obtain st1 where a: "append_to_content (hd messages) accuracy_clause st = Inr st1" by auto
    have c: "response_cache st1 = response_cache st" using append_to_content_effect [OF a] by simp
    show ?thesis
      unfolding execute_rate_limited [OF rl ne p k miss a]
      by (simp add: c)
  qed
  moreover have "primary_model # fallback_models
       = [ascii ''llama-3.1-70b-versatile'', ascii ''mixtral-8x7b-32768'',
          ascii ''llama-3.1-8b-instant'']"
    by (simp add: primary_model_def fallback_models_def)
  ultimately show ?thesis
    using execute_groq_call_returns [OF wf, of E max_tokens ctx]
      fallback_text_names_label [of E ctx]
    by blast
qed

text \<open>
  The system that has just started, called with one message against a remote service that
  always raises a rate-limit failure.
\<close>

theorem executor_never_raises_witness:
  \<open>well_formed_messages (map (store initial_system) [0])
   \<and> (\<forall>tr req. remote rate_limited_env tr req = RateLimitError)
   \<and> json_dumps (map (store initial_system) [0])
       = Inr (ascii ''[{"content": "x", "role": "system"}]'')
   \<and> generate_cache_id (ascii ''[{"content": "x", "role": "system"}]'')
       = Inr (ascii ''81bcd2642a90538bd8da'')
   \<and> response_cache initial_system (ascii ''81bcd2642a90538bd8da'') = None
   \<and> fst (execute_groq_call rate_limited_env [0] 1000 market_label initial_system)
       = Inr (fallback_text rate_limited_env market_label)
   \<and> map (\<lambda>e. case e of Dispatch req \<Rightarrow> req_model req | Sleep n \<Rightarrow> [n]
                 | ReadClock \<Rightarrow> [])
        (trace (snd (execute_groq_call rate_limited_env [0] 1000 market_label initial_system)))
       = [ascii ''llama-3.1-70b-versatile'', [15], ascii ''llama-3.1-70b-versatile'', [30],
          ascii ''llama-3.1-70b-versatile'', [45],
          ascii ''mixtral-8x7b-32768'', [25], ascii ''mixtral-8x7b-32768'', [40],
          ascii ''mixtral-8x7b-32768'', [55],
          ascii ''llama-3.1-8b-instant'', [35], ascii ''llama-3.1-8b-instant'', [50],
          ascii ''llama-3.1-8b-instant'', [65]]\<close>
proof -
  have ne: "[0::nat] \<noteq> []" by simp
  have t0: "trace initial_system = []" by (simp add: initial_system_def)
  from executor_never_raises [OF initial_well_formed, where E = rate_limited_env
      and max_tokens = 1000 and ctx = market_label
      and serialised = \<open>ascii ''[{"content": "x", "role": "system"}]''\<close>
      and k = "ascii ''81bcd2642a90538bd8da''"]
    rate_limited_remote initial_serialised fingerprint_original
    initial_miss [of "ascii ''81bcd2642a90538bd8da''"] ne
  have "let (r, st') = execute_groq_call rate_limited_env [0] 1000 market_label initial_system;
            dispatch = (\<lambda>model. Dispatch (make_request model (map (store st') [0]) 1000))
        in r = Inr (fallback_text rate_limited_env market_label)
           \<and> response_cache st' = response_cache initial_system
           \<and> trace st' = trace initial_system @
                [dispatch (ascii ''llama-3.1-70b-versatile''), Sleep 15,
                 dispatch (ascii ''llama-3.1-70b-versatile''), Sleep 30,
                 dispatch (ascii ''llama-3.1-70b-versatile''), Sleep 45,
                 dispatch (ascii ''mixtral-8x7b-32768''), Sleep 25,
                 dispatch (ascii ''mixtral-8x7b-32768''), Sleep 40,
                 dispatch (ascii ''mixtral-8x7b-32768''), Sleep 55,
                 dispatch (ascii ''llama-3.1-8b-instant''), Sleep 35,
                 dispatch (ascii ''llama-3.1-8b-instant''), Sleep 50,
                 dispatch (ascii ''llama-3.1-8b-instant''), Sleep 65]"
    by blast
  then have "fst (execute_groq_call rate_limited_env [0] 1000 market_label initial_system)
       = Inr (fallback_text rate_limited_env market_label)
   \<and> map (\<lambda>e. case e of Dispatch req \<Rightarrow> req_model req | Sleep n \<Rightarrow> [n]
                 | ReadClock \<Rightarrow> [])
        (trace (snd (execute_groq_call rate_limited_env [0] 1000 market_label initial_system)))
       = [ascii ''llama-3.1-70b-versatile'', [15], ascii ''llama-3.1-70b-versatile'', [30],
          ascii ''llama-3.1-70b-versatile'', [45],
          ascii ''mixtral-8x7b-32768'', [25], ascii ''mixtral-8x7b-32768'', [40],
          ascii ''mixtral-8x7b-32768'', [55],
          ascii ''llama-3.1-8b-instant'', [35], ascii ''llama-3.1-8b-instant'', [50],
          ascii ''llama-3.1-8b-instant'', [65]]"
    by (simp add: Let_def split_def t0 make_request_def)
  with rate_limited_remote initial_serialised fingerprint_original initial_miss
    initial_well_formed
  show ?thesis by simp
qed

text \<open>
  C4. Two calls whose messages serialise to the same text have the same fingerprint, and a
  cache hit short-circuits the dispatch: if after a first call the cache holds a response
  under the fingerprint of its messages, that call returned this response, and a later call
  with identically serialised messages returns it too and leaves the whole state, the trace
  of dispatches and sleeps included, as it was, whatever the remote service would do.
\<close>

theorem cache_hit_short_circuits:
  "messages1 \<noteq> [] \<Longrightarrow>
   json_dumps (map (store st) messages1) = Inr serialised \<Longrightarrow>
   generate_cache_id serialised = Inr k \<Longrightarrow>
   execute_groq_call E1 messages1 max_tokens1 ctx1 st = (r1, st1) \<Longrightarrow>
   response_cache st1 k = Some v \<Longrightarrow>
   response_cache st2 = response_cache st1 \<Longrightarrow>
   json_dumps (map (store st2) messages2) = json_dumps (map (store st) messages1) \<Longrightarrow>
     (case json_dumps (map (store st2) messages2) of
        Inl e \<Rightarrow> Inl e | Inr s \<Rightarrow> generate_cache_id s)
       = (case json_dumps (map (store st) messages1) of
            Inl e \<Rightarrow> Inl e | Inr s \<Rightarrow> generate_cache_id s)
     \<and> r1 = Inr v
     \<and> execute_groq_call E2 messages2 max_tokens2 ctx2 st2 = (Inr v, st2)"
proof -
  assume ne: "messages1 \<noteq> []"
    and p: "json_dumps (map (store st) messages1) = Inr serialised"
    and k: "generate_cache_id serialised = Inr k"
    and run: "execute_groq_call E1 messages1 max_tokens1 ctx1 st = (r1, st1)"
    and stored: "response_cache st1 k = Some v"
    and same: "response_cache st2 = response_cache st1"
    and ser: "json_dumps (map (store st2) messages2) = json_dumps (map (store st) messages1)"
  from execute_groq_call_cache [OF run] execute_groq_call_effect [OF ne run] p k
  have e: "case response_cache st k of
            Some cached \<Rightarrow> r1 = Inr cached \<and> st1 = st
          | None \<Rightarrow>
              (case append_to_content (hd messages1) accuracy_clause st of
                 Inl e \<Rightarrow> r1 = Inl e \<and> st1 = st
               | Inr sta \<Rightarrow>
                   store st1 = store sta
                   \<and> (r1 = Inr (fallback_text E1 ctx1) \<and> response_cache st1 = response_cache st
                      \<or> (\<exists>c. r1 = Inr c \<and> 150 < length c
                            \<and> response_cache st1 = (response_cache st)(k \<mapsto> c)
                            \<and> (\<exists>tr req c0 rest. trace st1 = tr @ [Dispatch req]
                                  \<and> remote E1 tr req = Response (Some c0 # rest)
                                  \<and> c0 \<noteq> [] \<and> c = strip c0))))"
    by auto
  have r1: "r1 = Inr v"
  proof (cases "response_cache st k")
    case None
    with e stored show ?thesis
      by (cases "append_to_content (hd messages1) accuracy_clause st") auto
  next
    case (Some cached)
    with e stored show ?thesis by auto
  qed
  have ne2: "messages2 \<noteq> []"
  proof
    assume "messages2 = []"
    with ser have "json_dumps (map (store st) messages1) = json_dumps []" by simp
    moreover from ne obtain m ms where "map (store st) messages1 = m # ms"
      by (cases messages1) auto
    ultimately show False using json_dumps_nonempty by metis
  qed
  have "execute_groq_call E2 messages2 max_tokens2 ctx2 st2 = (Inr v, st2)"
    using ne2 p k stored same ser by (simp add: execute_groq_call_def)
  with r1 ser show ?thesis by simp
qed

text \<open>
  After the first call was answered, a second call with a message of the same content
  returns the stored answer, although its remote service would only raise.
\<close>

theorem cache_hit_short_circuits_witness:
  \<open>execute_groq_call accepting_env [0] 1000 market_label initial_system
     = (Inr long_answer, accepted_system)
   \<and> json_dumps (map (store initial_system) [0])
       = Inr (ascii ''[{"content": "x", "role": "system"}]'')
   \<and> generate_cache_id (ascii ''[{"content": "x", "role": "system"}]'')
       = Inr (ascii ''81bcd2642a90538bd8da'')
   \<and> response_cache accepted_system (ascii ''81bcd2642a90538bd8da'') = Some long_answer
   \<and> json_dumps (map (store accepted_system) [1]) = json_dumps (map (store initial_system) [0])
   \<and> execute_groq_call rate_limited_env [1] 700 (ascii ''risk_assessment'') accepted_system
       = (Inr long_answer, accepted_system)\<close>
proof -
  have ne: "[0::nat] \<noteq> []" by simp
  have ser: "json_dumps (map (store accepted_system) [1]) = json_dumps (map (store initial_system) [0])"
    by (simp add: accepted_messages initial_messages)
  from cache_hit_short_circuits [OF ne initial_serialised fingerprint_original run_accepting
      accepted_cache(1) refl ser, of rate_limited_env 700 "ascii ''risk_assessment''"]
  show ?thesis
    using run_accepting accepted_cache(1) ser initial_serialised fingerprint_original by simp
qed

text \<open>
  C5 does not hold of the code. The caller passes the list \<open>[0]\<close>, whose message has the
  content \<open>x\<close>; after the call the same message has the content \<open>x\<close> followed by the
  accuracy clause, because the copy of the list shares its dictionaries with the original.
\<close>

theorem caller_messages_mutated:
  "map (\<lambda>ref. dict_get (store initial_system ref) (ascii ''content'')) [0]
     = [Inr (VStr (ascii ''x''))]
   \<and> map (\<lambda>ref. dict_get (store
         (snd (execute_groq_call rate_limited_env [0] 1000 market_label initial_system)) ref)
         (ascii ''content'')) [0]
       = [Inr (VStr (ascii ''x'' @ accuracy_clause))]"
  unfolding rate_limited_run
  by (simp add: initial_messages dict_get_def message_def ascii_def)

text \<open>
  A consequence: when the caller passes the very same list again, its first message already
  carries the clause, so the fingerprint differs, the cache misses, the clause is appended a
  second time and the remote service is called again.
\<close>

lemma repeated_call_with_same_list:
  "fst (execute_groq_call accepting_env [0] 1000 market_label accepted_system) = Inr long_answer
   \<and> trace (snd (execute_groq_call accepting_env [0] 1000 market_label accepted_system))
       = trace accepted_system
         @ [Dispatch (make_request (ascii ''llama-3.1-70b-versatile'')
               [message (ascii ''system'') ((ascii ''x'' @ accuracy_clause) @ accuracy_clause)]
               1000)]"
proof -
  have ne: "[0::nat] \<noteq> []" by simp
  have r: "remote accepting_env tr req = Response [Some long_answer]" for tr req
    by (simp add: accepting_env_def)
  have a: "append_to_content (hd [0]) accuracy_clause accepted_system = Inr
     (accepted_system\<lparr>store := (store accepted_system)
        (0 := message (ascii ''system'') ((ascii ''x'' @ accuracy_clause) @ accuracy_clause))\<rparr>)"
    by (simp add: message_append [OF accepted_messages(1)])
  show ?thesis
    unfolding execute_groq_call_miss [OF ne accepted_serialised(1) fingerprint_enhanced
        accepted_cache(2) a] all_models_enumerated
    by (simp add: r strip_long_answer length_long_answer long_answer_nonempty)
qed

text \<open>
  The invariant of the cache: in every reachable state, every value is longer than 150
  characters and is the stripped content of the first choice of an answer of the remote
  service.
\<close>

lemma reachable_cache:
  "reachable E st \<Longrightarrow> response_cache st k = Some v \<Longrightarrow>
     150 < length v
     \<and> (\<exists>tr req c rest. remote E tr req = Response (Some c # rest) \<and> c \<noteq> [] \<and> v = strip c)"
proof (induction arbitrary: k v rule: reachable.induct)
  case (start st)
  then show ?case by simp
next
  case (call st messages max_tokens ctx r st')
  from execute_groq_call_cache [OF call.hyps(2)]
  show ?case
  proof
    assume "response_cache st' = response_cache st"
    with call.IH call.prems show ?thesis by simp
  next
    assume "\<exists>k tr req c rest. trace st' = tr @ [Dispatch req]
            \<and> remote E tr req = Response (Some c # rest) \<and> c \<noteq> [] \<and> 150 < length (strip c)
            \<and> r = Inr (strip c) \<and> response_cache st' = (response_cache st)(k \<mapsto> strip c)"
    then obtain k' tr req c rest where rem: "remote E tr req = Response (Some c # rest)" "c \<noteq> []"
      "150 < length (strip c)" and upd: "response_cache st' = (response_cache st)(k' \<mapsto> strip c)"
      by blast
    show ?thesis
    proof (cases "k = k'")
      case True
      with upd call.prems have "v = strip c" by simp
      with rem show ?thesis by blast
    next
      case False
      with upd call.prems have "response_cache st k = Some v" by simp
      from call.IH [OF this] show ?thesis .
    qed
  qed
next
  case (other st st')
  then show ?case by simp
qed

text \<open>
  C9. Only accepted content is stored in the cache. In every state reached from an empty
  cache by calls of the executor, every value of the cache is longer than 150 characters and
  is the stripped, non-empty content of the first choice of an answer of the remote service.
  A call of the executor either leaves the cache as it was, or the answer to the last request
  it dispatched had such a content, longer than 150 characters after stripping, and this is
  what the call returns and the one entry it adds. The fallback text is never cached: when a
  call misses the cache and the loop over the models ends without an accepted response, the
  call returns the fallback text in the very state the loop ended in, whose cache is as it
  was on entry; and against a remote service none of whose answers is acceptable, every call
  leaves the cache as it was.
\<close>

theorem cache_holds_only_accepted_content:
  "(reachable E st \<and> response_cache st k = Some v
      \<longrightarrow> 150 < length v
          \<and> (\<exists>tr req c rest. remote E tr req = Response (Some c # rest) \<and> c \<noteq> []
                \<and> v = strip c))
   \<and> (execute_groq_call E1 messages1 max_tokens1 ctx1 st1 = (r1, st1')
      \<longrightarrow> response_cache st1' = response_cache st1
          \<or> (\<exists>k1 tr req c rest. trace st1' = tr @ [Dispatch req]
                 \<and> remote E1 tr req = Response (Some c # rest)
                 \<and> c \<noteq> [] \<and> 150 < length (strip c)
                 \<and> r1 = Inr (strip c)
                 \<and> response_cache st1' = (response_cache st1)(k1 \<mapsto> strip c)))
   \<and> (messages2 \<noteq> []
        \<and> json_dumps (map (store st2) messages2) = Inr serialised
        \<and> generate_cache_id serialised = Inr k2
        \<and> response_cache st2 k2 = None
        \<and> append_to_content (hd messages2) accuracy_clause st2 = Inr enhanced
        \<and> model_loop E2 k2 messages2 max_tokens2
             (zip [0..<length (primary_model # fallback_models)] (primary_model # fallback_models))
             enhanced = (None, st2')
      \<longrightarrow> execute_groq_call E2 messages2 max_tokens2 ctx2 st2 = (Inr (fallback_text E2 ctx2), st2')
          \<and> response_cache st2' = response_cache st2)
   \<and> ((\<forall>tr req c rest. remote E3 tr req = Response (Some c # rest)
              \<longrightarrow> c = [] \<or> length (strip c) \<le> 150)
        \<and> execute_groq_call E3 messages3 max_tokens3 ctx3 st3 = (r3, st3')
      \<longrightarrow> response_cache st3' = response_cache st3)"
proof -
  have "response_cache st3' = response_cache st3"
    if never: "\<forall>tr req c rest. remote E3 tr req = Response (Some c # rest)
              \<longrightarrow> c = [] \<or> length (strip c) \<le> 150"
      and run: "execute_groq_call E3 messages3 max_tokens3 ctx3 st3 = (r3, st3')"
  proof -
    from execute_groq_call_cache [OF run]
    show ?thesis
    proof
      assume "response_cache st3' = response_cache st3"
      then show ?thesis .
    next
      assume "\<exists>k tr req c rest. trace st3' = tr @ [Dispatch req]
            \<and> remote E3 tr req = Response (Some c # rest) \<and> c \<noteq> [] \<and> 150 < length (strip c)
            \<and> r3 = Inr (strip c) \<and> response_cache st3' = (response_cache st3)(k \<mapsto> strip c)"
      then obtain tr req c rest where "remote E3 tr req = Response (Some c # rest)" "c \<noteq> []"
        "150 < length (strip c)" by blast
      with never have False by force
      then show ?thesis ..
    qed
  qed
  then show ?thesis
    using reachable_cache [of E st k v]
      execute_groq_call_cache [of E1 messages1 max_tokens1 ctx1 st1 r1 st1']
      execute_exhausted [of messages2 st2 serialised k2 enhanced E2 max_tokens2 st2' ctx2]
    by blast
qed

text \<open>
  The state after an accepted answer is reachable and holds that answer, stored by the call
  that returned it; a call against a remote service that always raises a rate-limit failure
  returns the fallback text and leaves the cache empty.
\<close>

theorem cache_holds_only_accepted_content_witness:
  "reachable accepting_env accepted_system
   \<and> response_cache accepted_system (ascii ''81bcd2642a90538bd8da'') = Some long_answer
   \<and> 150 < length long_answer
   \<and> remote accepting_env [] (make_request primary_model [] 0) = Response [Some long_answer]
   \<and> long_answer = strip long_answer
   \<and> execute_groq_call accepting_env [0] 1000 market_label initial_system
       = (Inr long_answer, accepted_system)
   \<and> response_cache accepted_system
       = (response_cache initial_system)(ascii ''81bcd2642a90538bd8da'' \<mapsto> long_answer)
   \<and> fst (execute_groq_call rate_limited_env [0] 1000 market_label initial_system)
       = Inr (fallback_text rate_limited_env market_label)
   \<and> response_cache (snd (execute_groq_call rate_limited_env [0] 1000 market_label initial_system))
       = response_cache initial_system"
proof -
  have ne: "[0::nat] \<noteq> []" by simp
  have "reachable accepting_env initial_system"
    by (rule reachable.start) (simp add: initial_system_def)
  then have r: "reachable accepting_env accepted_system"
    using run_accepting by (rule reachable.call)
  have a: "append_to_content (hd [0]) accuracy_clause initial_system = Inr
     (initial_system\<lparr>store := (store initial_system)
        (0 := message (ascii ''system'') (ascii ''x'' @ accuracy_clause))\<rparr>)"
    by (simp add: message_append [OF initial_messages])
  obtain st2' where m: "model_loop rate_limited_env (ascii ''81bcd2642a90538bd8da'') [0] 1000
      (zip [0..<length (primary_model # fallback_models)] (primary_model # fallback_models))
      (initial_system\<lparr>store := (store initial_system)
        (0 := message (ascii ''system'') (ascii ''x'' @ accuracy_clause))\<rparr>) = (None, st2')"
    using model_loop_rate_limited [OF rate_limited_remote] by blast
  obtain r3 st3' where run3: "execute_groq_call rate_limited_env [0] 1000 market_label
      initial_system = (r3, st3')"
    by (cases "execute_groq_call rate_limited_env [0] 1000 market_label initial_system")
  have never: "\<forall>tr req c rest. remote rate_limited_env tr req = Response (Some c # rest)
              \<longrightarrow> c = [] \<or> length (strip c) \<le> 150"
    by (simp add: rate_limited_env_def)
  have c: "response_cache accepted_system
       = (response_cache initial_system)(ascii ''81bcd2642a90538bd8da'' \<mapsto> long_answer)"
    by (simp add: accepted_system_def initial_system_def)
  have rem: "remote accepting_env [] (make_request primary_model [] 0) = Response [Some long_answer]"
    by (simp add: accepting_env_def)
  from cache_holds_only_accepted_content [where E = accepting_env and st = accepted_system
      and k = "ascii ''81bcd2642a90538bd8da''" and v = long_answer
      and ?E1.0 = accepting_env and ?messages1.0 = "[0]" and ?max_tokens1.0 = 1000
      and ?ctx1.0 = market_label and ?st1.0 = initial_system and ?r1.0 = "Inr long_answer"
      and st1' = accepted_system
      and ?E2.0 = rate_limited_env and ?messages2.0 = "[0]" and ?max_tokens2.0 = 1000
      and ?ctx2.0 = market_label and ?st2.0 = initial_system
      and serialised = \<open>ascii ''[{"content": "x", "role": "system"}]''\<close>
      and ?k2.0 = "ascii ''81bcd2642a90538bd8da''"
      and enhanced = "initial_system\<lparr>store := (store initial_system)
        (0 := message (ascii ''system'') (ascii ''x'' @ accuracy_clause))\<rparr>"
      and st2' = st2'
      and ?E3.0 = rate_limited_env and ?messages3.0 = "[0]" and ?max_tokens3.0 = 1000
      and ?ctx3.0 = market_label and ?st3.0 = initial_system and ?r3.0 = r3 and st3' = st3']
    r accepted_cache(1) run_accepting ne initial_serialised fingerprint_original
    initial_miss [of "ascii ''81bcd2642a90538bd8da''"] a m never run3
  have "150 < length long_answer"
    and "execute_groq_call rate_limited_env [0] 1000 market_label initial_system
           = (Inr (fallback_text rate_limited_env market_label), st2')"
    and "response_cache st2' = response_cache initial_system"
    and "response_cache st3' = response_cache initial_system"
    by blast+
  with r accepted_cache(1) rem run_accepting c strip_long_answer show ?thesis by simp
qed

section \<open>Properties of the orchestrator\<close>

lemma status_words:
  "contains (ascii ''Input validation failed: Query insufficient'') (ascii ''failed'')"
  "contains (ascii ''Input validation failed: Query insufficient'') (ascii ''insufficient'')"
  by (simp_all add: ascii_def)

lemma validation_report_heading:
  "starts_with validation_report (10 # ascii ''# Input Validation Error'')"
  by (simp add: validation_report_def ascii_def)

text \<open>
  C6. For every query whose trimmed length is below 10, \<open>execute_complete_analysis\<close>
  returns the validation report and the status \<open>Input validation failed: Query
  insufficient\<close>, which contains \<open>failed\<close> and \<open>insufficient\<close>; the only thing it does is
  read the clock once, so no completion is dispatched and the response cache, like the rest
  of the state, is as it was.
\<close>

theorem short_query_rejected:
  "length (strip query_text) < 10 \<Longrightarrow>
     execute_complete_analysis E query_text targets_input st
       = ((validation_report, ascii ''Input validation failed: Query insufficient''),
          st\<lparr>trace := trace st @ [ReadClock]\<rparr>)
     \<and> starts_with validation_report (10 # ascii ''# Input Validation Error'')
     \<and> contains (ascii ''Input validation failed: Query insufficient'') (ascii ''failed'')
     \<and> contains (ascii ''Input validation failed: Query insufficient'') (ascii ''insufficient'')
     \<and> response_cache (snd (execute_complete_analysis E query_text targets_input st))
         = response_cache st
     \<and> list_all (\<lambda>e. case e of Dispatch req \<Rightarrow> False | Sleep n \<Rightarrow> True | ReadClock \<Rightarrow> True)
          (drop (length (trace st))
             (trace (snd (execute_complete_analysis E query_text targets_input st))))"
proof -
  assume short: "length (strip query_text) < 10"
  have run: "execute_complete_analysis E query_text targets_input st
       = ((validation_report, ascii ''Input validation failed: Query insufficient''),
          st\<lparr>trace := trace st @ [ReadClock]\<rparr>)"
    using short by (simp add: execute_complete_analysis_def read_clock_def)
  show ?thesis
    unfolding run using status_words validation_report_heading by simp
qed

text \<open>The query \<open>ab\<close>, with a remote service that would answer.\<close>

theorem short_query_rejected_witness:
  "length (strip (ascii ''ab'')) < 10
   \<and> execute_complete_analysis accepting_env (ascii ''ab'') (ascii ''Microsoft, Google'') initial_system
       = ((validation_report, ascii ''Input validation failed: Query insufficient''),
          initial_system\<lparr>trace := [ReadClock]\<rparr>)"
proof -
  have short: "length (strip (ascii ''ab'')) < 10"
    by (simp add: strip_def ascii_def is_space_def)
  have t: "trace initial_system = []" by (simp add: initial_system_def)
  from short_query_rejected [OF short, of accepting_env "ascii ''Microsoft, Google''" initial_system]
  show ?thesis using short by (simp add: t)
qed

end
